theory Spec2Isabelle
  imports Complex_Main "HOL-Library.FSet" "HOL-Library.Sublist"
begin

section \<open>Errors and numeric conventions\<close>

text \<open>
  The embedding follows \<^verbatim>\<open>src/models/model_t5.py\<close>. Tensors are nested lists of
  reals: the float32/float16 arithmetic of torch is idealised as exact real arithmetic,
  so every dtype cast (\<^verbatim>\<open>.float()\<close>, \<^verbatim>\<open>.to(torch.float32)\<close>, \<^verbatim>\<open>.type_as\<close>) is the identity.
  Shape errors raised inside torch are outside the model: the list operations below
  truncate where torch would refuse mismatched shapes. The exceptions that the Python
  code itself raises (assert, raise, integer division by zero, \<^verbatim>\<open>math.log\<close> outside its
  domain, an index outside a table) are values of the type \<open>error\<close>.
\<close>

datatype error =
    AssertionError
  | ValueError
  | ZeroDivisionError
  | IndexError
  | AttributeError
  | TypeError
  | RuntimeError
  | NonFiniteToLong

section \<open>Relative position buckets\<close>

text \<open>
  \<^verbatim>\<open>.to(torch.long)\<close> on a finite float truncates toward zero.
\<close>

definition to_long :: "real \<Rightarrow> int" where
  "to_long x = (if 0 \<le> x then \<lfloor>x\<rfloor> else \<lceil>x\<rceil>)"

text \<open>
  \<^verbatim>\<open>T5Attention._relative_position_bucket\<close>, for one entry of the tensor
  \<^verbatim>\<open>relative_position\<close>. The Python function works on the whole tensor at once and
  \<^verbatim>\<open>torch.where\<close> discards \<^verbatim>\<open>val_if_large\<close> at the entries where \<^verbatim>\<open>is_small\<close> holds, so
  at such an entry a logarithm of zero does no harm. \<^verbatim>\<open>max_distance / max_exact\<close> is
  Python's true division and raises on a zero divisor; \<^verbatim>\<open>math.log\<close> raises ValueError on
  a non-positive argument. Where the float to be converted is infinite or not a number
  (a zero denominator \<^verbatim>\<open>math.log(1)\<close>, or the logarithm of a non-positive quotient) the
  conversion to an integer is not defined by torch; the model returns
  \<open>NonFiniteToLong\<close> there.
\<close>

definition relative_position_bucket :: "bool \<Rightarrow> int \<Rightarrow> int \<Rightarrow> int \<Rightarrow> error + int" where
  "relative_position_bucket bidirectional num_buckets max_distance relative_position =
    (let ret0 = (0::int);
         n0 = - relative_position;
         nb = (if bidirectional then num_buckets div 2 else num_buckets);
         ret = (if bidirectional then ret0 + (if n0 < 0 then 1 else 0) * nb else ret0);
         n = (if bidirectional then \<bar>n0\<bar> else max n0 0);
         max_exact = nb div 2;
         is_small = (n < max_exact)
     in if max_exact = 0 then Inl ZeroDivisionError
        else if real_of_int max_distance / real_of_int max_exact \<le> 0 then Inl ValueError
        else if is_small then Inr (ret + n)
        else if real_of_int n / real_of_int max_exact \<le> 0
                \<or> ln (real_of_int max_distance / real_of_int max_exact) = 0
          then Inl NonFiniteToLong
        else
          (let val_if_large = max_exact +
                 to_long (ln (real_of_int n / real_of_int max_exact)
                          / ln (real_of_int max_distance / real_of_int max_exact)
                          * real_of_int (nb - max_exact));
               val_if_large' = min val_if_large (nb - 1)
           in Inr (ret + val_if_large')))"

text \<open>
  Two auxiliary functions name the parts of the result: \<open>log_steps\<close> is the number of
  logarithmic steps beyond the exact region, and \<open>half_bucket\<close> is the bucket of a
  non-negative distance inside one range of \<open>nb\<close> buckets.
\<close>

definition log_steps :: "int \<Rightarrow> int \<Rightarrow> int \<Rightarrow> int" where
  "log_steps nb max_distance n =
     \<lfloor>ln (real_of_int n / real_of_int (nb div 2))
        / ln (real_of_int max_distance / real_of_int (nb div 2))
        * real_of_int (nb - nb div 2)\<rfloor>"

definition half_bucket :: "int \<Rightarrow> int \<Rightarrow> int \<Rightarrow> int" where
  "half_bucket nb max_distance n =
     (if n < nb div 2 then n
      else min (nb div 2 + log_steps nb max_distance n) (nb - 1))"

text \<open>
  The specification's formula for one half of the buckets, in its own words: offsets
  smaller than \<open>num_buckets/4\<close> map to themselves, larger ones to
  \<open>max_exact + floor(log(offset/max_exact) / log(max_distance/max_exact) *
  (num_buckets/2 - max_exact))\<close>, clamped to the largest index of the half.
\<close>

definition spec_bucket :: "int \<Rightarrow> int \<Rightarrow> int \<Rightarrow> int" where
  "spec_bucket num_buckets max_distance offset =
     (let max_exact = num_buckets div 4
      in if offset < max_exact then offset
         else min (max_exact + \<lfloor>ln (real_of_int offset / real_of_int max_exact)
                    / ln (real_of_int max_distance / real_of_int max_exact)
                    * real_of_int (num_buckets div 2 - max_exact)\<rfloor>) (num_buckets div 2 - 1))"

section \<open>Tensors\<close>

text \<open>
  A tensor of rank \<open>k\<close> is a list nested \<open>k\<close> deep; the outermost list is axis 0.
  Hidden states are \<open>[batch, length, width]\<close>, keys, values, scores and biases are
  \<open>[batch, heads, query length, key length or head width]\<close>.
\<close>

type_synonym vec = "real list"
type_synonym mat = "real list list"
type_synonym tensor3 = "real list list list"
type_synonym tensor4 = "real list list list list"

text \<open>\<^verbatim>\<open>x.size(1)\<close> of a rank-3 tensor and \<^verbatim>\<open>x.shape[2]\<close> of a rank-4 tensor.\<close>

definition size1 :: "'a list list \<Rightarrow> nat" where
  "size1 x = (case x of [] \<Rightarrow> 0 | b # _ \<Rightarrow> length b)"

definition shape2 :: "'a list list list \<Rightarrow> nat" where
  "shape2 x = (case x of [] \<Rightarrow> 0 | b # _ \<Rightarrow> size1 b)"

text \<open>
  Element-wise operations with torch's broadcasting: along an axis where one operand has
  size one, its single entry is paired with every entry of the other operand.
\<close>

definition bzip :: "('a \<Rightarrow> 'a \<Rightarrow> 'a) \<Rightarrow> 'a list \<Rightarrow> 'a list \<Rightarrow> 'a list" where
  "bzip f xs ys =
     (case xs of
        [x] \<Rightarrow> map (f x) ys
      | _ \<Rightarrow> (case ys of [y] \<Rightarrow> map (\<lambda>x. f x y) xs | _ \<Rightarrow> map2 f xs ys))"

definition badd4 :: "tensor4 \<Rightarrow> tensor4 \<Rightarrow> tensor4" where
  "badd4 = bzip (bzip (bzip (bzip (+))))"

definition bmul4 :: "tensor4 \<Rightarrow> tensor4 \<Rightarrow> tensor4" where
  "bmul4 = bzip (bzip (bzip (bzip (*))))"

definition add3 :: "tensor3 \<Rightarrow> tensor3 \<Rightarrow> tensor3" where
  "add3 = map2 (map2 (map2 (+)))"

definition dot :: "vec \<Rightarrow> vec \<Rightarrow> real" where
  "dot x y = sum_list (map2 (*) x y)"

text \<open>\<^verbatim>\<open>torch.cat([a, b], dim=2)\<close> on rank-4 tensors.\<close>

definition cat_dim2 :: "tensor4 \<Rightarrow> tensor4 \<Rightarrow> tensor4" where
  "cat_dim2 a b = map2 (map2 (@)) a b"

text \<open>\<^verbatim>\<open>x[:, :, -1:, :]\<close>: the last entry of axis 2, kept as a list of length one.\<close>

definition last_query_row :: "tensor4 \<Rightarrow> tensor4" where
  "last_query_row x = map (map (\<lambda>rows. drop (length rows - 1) rows)) x"

text \<open>\<^verbatim>\<open>torch.einsum("bnqd,bnkd->bnqk", q, k)\<close> and \<^verbatim>\<open>torch.matmul(weights, v)\<close>.\<close>

definition einsum_bnqd_bnkd :: "tensor4 \<Rightarrow> tensor4 \<Rightarrow> tensor4" where
  "einsum_bnqd_bnkd q k =
     map2 (map2 (\<lambda>qs ks. map (\<lambda>qv. map (\<lambda>kv. dot qv kv) ks) qs)) q k"

definition matmul :: "mat \<Rightarrow> mat \<Rightarrow> mat" where
  "matmul a b = map (\<lambda>row. map (\<lambda>col. dot row col) (transpose b)) a"

definition matmul4 :: "tensor4 \<Rightarrow> tensor4 \<Rightarrow> tensor4" where
  "matmul4 a b = map2 (map2 matmul) a b"

text \<open>\<^verbatim>\<open>F.softmax(scores, dim=-1)\<close>.\<close>

definition softmax :: "vec \<Rightarrow> vec" where
  "softmax xs = map (\<lambda>x. exp x / sum_list (map exp xs)) xs"

definition softmax4 :: "tensor4 \<Rightarrow> tensor4" where
  "softmax4 = map (map (map softmax))"

text \<open>
  \<^verbatim>\<open>nn.Linear(in, out, bias=False)\<close> is its weight matrix \<open>[out][in]\<close>, applied along
  the last axis; \<^verbatim>\<open>nn.Embedding\<close> is its table with the declared width.
\<close>

definition Linear_forward_vec :: "mat \<Rightarrow> vec \<Rightarrow> vec" where
  "Linear_forward_vec w x = map (\<lambda>row. dot row x) w"

definition Linear_forward :: "mat \<Rightarrow> tensor3 \<Rightarrow> tensor3" where
  "Linear_forward w = map (map (Linear_forward_vec w))"

record Embedding =
  num_embeddings :: nat
  embedding_dim :: nat
  emb_weight :: mat

text \<open>The first error of a list of results, or all the values.\<close>

fun sequence :: "(error + 'a) list \<Rightarrow> error + 'a list" where
  "sequence [] = Inr []"
| "sequence (r # rs) =
     (case r of
        Inl e \<Rightarrow> Inl e
      | Inr x \<Rightarrow> (case sequence rs of Inl e \<Rightarrow> Inl e | Inr xs \<Rightarrow> Inr (x # xs)))"

section \<open>T5LayerNorm\<close>

text \<open>
  \<^verbatim>\<open>T5LayerNorm.forward\<close> along the last axis: the mean of the squares, no subtraction
  of the mean, no bias. The source computes the variance in float32; here it is a real
  number, so the overflow of a float32 square (inputs beyond about \<open>1.8e19\<close>), underflow
  and rounding are not modelled. The layers below use the definition as a step of their
  data flow; no property of its numeric values is stated.
\<close>

record T5LayerNorm =
  ln_weight :: vec
  variance_epsilon :: real

definition mean :: "vec \<Rightarrow> real" where
  "mean xs = sum_list xs / real (length xs)"

definition T5LayerNorm_forward_vec :: "T5LayerNorm \<Rightarrow> vec \<Rightarrow> vec" where
  "T5LayerNorm_forward_vec m x =
     (let variance = mean (map (\<lambda>a. a ^ 2) x);
          x' = map (\<lambda>a. a / sqrt (variance + variance_epsilon m)) x
      in map2 (*) (ln_weight m) x')"

definition T5LayerNorm_forward :: "T5LayerNorm \<Rightarrow> tensor3 \<Rightarrow> tensor3" where
  "T5LayerNorm_forward m = map (map (T5LayerNorm_forward_vec m))"

section \<open>T5Attention\<close>

text \<open>
  The weights of the four bias-free projections \<^verbatim>\<open>self.q\<close>, \<^verbatim>\<open>self.k\<close>, \<^verbatim>\<open>self.v\<close>,
  \<^verbatim>\<open>self.o\<close> are the fields \<open>q_weight\<close> to \<open>o_weight\<close>; the argument \<^verbatim>\<open>mask\<close> of
  \<^verbatim>\<open>forward\<close> is written \<open>amask\<close>.
  The module is modelled in evaluation mode (\<^verbatim>\<open>self.training\<close> false), where
  \<^verbatim>\<open>F.dropout\<close> and \<^verbatim>\<open>nn.Dropout\<close> are the identity.
\<close>

record T5Attention =
  is_decoder :: bool
  has_relative_attention_bias :: bool
  relative_attention_num_buckets :: int
  d_model :: nat
  d_kv :: nat
  n_heads :: int
  inner_dim :: int
  q_weight :: mat
  k_weight :: mat
  v_weight :: mat
  o_weight :: mat
  relative_attention_bias :: "Embedding option"
  pruned_heads :: "int fset"

text \<open>
  The whole-tensor version of the bucket function: the two Python exceptions depend on
  the configuration only and are raised whatever the tensor holds, also when it is empty.
\<close>

definition relative_position_bucket_tensor ::
    "bool \<Rightarrow> int \<Rightarrow> int \<Rightarrow> int list list \<Rightarrow> error + int list list" where
  "relative_position_bucket_tensor bidirectional num_buckets max_distance relative_position =
     (let nb = (if bidirectional then num_buckets div 2 else num_buckets);
          max_exact = nb div 2
      in if max_exact = 0 then Inl ZeroDivisionError
         else if real_of_int max_distance / real_of_int max_exact \<le> 0 then Inl ValueError
         else sequence (map (\<lambda>row. sequence
                 (map (relative_position_bucket bidirectional num_buckets max_distance) row))
                 relative_position))"

definition embedding_lookup :: "Embedding \<Rightarrow> int \<Rightarrow> error + vec" where
  "embedding_lookup e i =
     (if 0 \<le> i \<and> i < int (num_embeddings e) \<and> nat i < length (emb_weight e)
      then Inr (emb_weight e ! nat i) else Inl IndexError)"

text \<open>
  \<^verbatim>\<open>T5Attention.compute_bias\<close>: \<^verbatim>\<open>relative_position[i][j] = j - i\<close>, bucketed with the
  default \<^verbatim>\<open>max_distance=128\<close>, looked up in the table and permuted to
  \<open>[1, heads, qlen, klen]\<close>.
\<close>

definition compute_bias :: "T5Attention \<Rightarrow> nat \<Rightarrow> nat \<Rightarrow> error + tensor4" where
  "compute_bias m qlen klen =
     (let relative_position =
            map (\<lambda>i. map (\<lambda>j. int j - int i) [0..<klen]) [0..<qlen]
      in case relative_position_bucket_tensor (\<not> is_decoder m)
                (relative_attention_num_buckets m) 128 relative_position of
           Inl e \<Rightarrow> Inl e
         | Inr rp_bucket \<Rightarrow>
            (case relative_attention_bias m of
               None \<Rightarrow> Inl AttributeError
             | Some table \<Rightarrow>
                (case sequence (map (\<lambda>row. sequence (map (embedding_lookup table) row)) rp_bucket) of
                   Inl e \<Rightarrow> Inl e
                 | Inr values \<Rightarrow>
                     Inr [map (\<lambda>h. map (map (\<lambda>entry. entry ! h)) values)
                            [0..<embedding_dim table]])))"

text \<open>
  \<^verbatim>\<open>shape\<close> and \<^verbatim>\<open>unshape\<close>, the local functions of \<^verbatim>\<open>forward\<close>: the inner vector of
  every position is cut into \<open>n_heads\<close> pieces of width \<open>d_kv\<close>, and back.
\<close>

definition shape :: "T5Attention \<Rightarrow> tensor3 \<Rightarrow> tensor4" where
  "shape m x =
     map (\<lambda>rows. map (\<lambda>h. map (\<lambda>row. take (d_kv m) (drop (h * d_kv m) row)) rows)
                   [0..<nat (n_heads m)]) x"

definition unshape :: "T5Attention \<Rightarrow> tensor4 \<Rightarrow> tensor3" where
  "unshape m x = map (\<lambda>heads. map concat (transpose heads)) x"

text \<open>
  The keys and values that \<^verbatim>\<open>forward\<close> attends over (the part of the function between
  the projection of the query and the scores). Self-attention projects the input and
  appends it to the cached pair; cross-attention projects \<^verbatim>\<open>kv\<close> only without a cache
  and takes the cached pair otherwise. The cache is the tuple as received.
\<close>

definition key_value_states ::
    "T5Attention \<Rightarrow> tensor3 \<Rightarrow> tensor3 option \<Rightarrow> tensor4 list option \<Rightarrow> tensor4 \<times> tensor4" where
  "key_value_states m input kv past_key_value_state =
     (case kv of
        None \<Rightarrow>
          (let k0 = shape m (Linear_forward (k_weight m) input);
               v0 = shape m (Linear_forward (v_weight m) input)
           in case past_key_value_state of
                None \<Rightarrow> (k0, v0)
              | Some past \<Rightarrow> (cat_dim2 (past ! 0) k0, cat_dim2 (past ! 1) v0))
      | Some src \<Rightarrow>
          (case past_key_value_state of
             None \<Rightarrow> (shape m (Linear_forward (k_weight m) src), shape m (Linear_forward (v_weight m) src))
           | Some past \<Rightarrow> (past ! 0, past ! 1)))"

text \<open>
  The position bias added to the scores: the one supplied, or else the one computed from
  the table, cut to the newest query row under a cache, with the mask added.
\<close>

definition attention_position_bias ::
    "T5Attention \<Rightarrow> tensor4 option \<Rightarrow> tensor4 option \<Rightarrow> tensor4 list option
       \<Rightarrow> nat \<Rightarrow> nat \<Rightarrow> error + tensor4" where
  "attention_position_bias m amask position_bias past_key_value_state real_qlen klen =
     (case position_bias of
        Some pb \<Rightarrow> Inr pb
      | None \<Rightarrow>
          if \<not> has_relative_attention_bias m then Inl ValueError
          else (case compute_bias m real_qlen klen of
                  Inl e \<Rightarrow> Inl e
                | Inr pb \<Rightarrow>
                   (let pb1 = (if past_key_value_state \<noteq> None then last_query_row pb else pb);
                        pb2 = (case amask of None \<Rightarrow> pb1 | Some mk \<Rightarrow> badd4 pb1 mk)
                    in Inr pb2)))"

text \<open>
  The two lengths that \<^verbatim>\<open>forward\<close> derives first: \<^verbatim>\<open>real_qlen\<close> counts the cached
  positions too unless \<^verbatim>\<open>query_length\<close> overrides it, and \<^verbatim>\<open>klen\<close> is \<^verbatim>\<open>real_qlen\<close> in
  self-attention and the length of \<^verbatim>\<open>kv\<close> in cross-attention.
\<close>

definition attention_real_qlen :: "tensor3 \<Rightarrow> tensor4 list option \<Rightarrow> nat option \<Rightarrow> nat" where
  "attention_real_qlen input past_key_value_state query_length =
     (let qlen = size1 input
      in case past_key_value_state of
           None \<Rightarrow> qlen
         | Some past \<Rightarrow>
             (case query_length of None \<Rightarrow> qlen + shape2 (past ! 0) | Some ql \<Rightarrow> ql))"

definition attention_klen ::
    "tensor3 \<Rightarrow> tensor3 option \<Rightarrow> tensor4 list option \<Rightarrow> nat option \<Rightarrow> nat" where
  "attention_klen input kv past_key_value_state query_length =
     (case kv of
        None \<Rightarrow> attention_real_qlen input past_key_value_state query_length
      | Some src \<Rightarrow> size1 src)"

text \<open>
  The tuple that \<^verbatim>\<open>forward\<close> returns has optional members; the record names them:
  the context, the present key/value pair, the attention weights and the position bias.
\<close>

record attention_outputs =
  att_context :: tensor3
  att_present :: "(tensor4 \<times> tensor4) option"
  att_weights :: "tensor4 option"
  att_position_bias :: "tensor4 option"

text \<open>
  The numeric part of \<^verbatim>\<open>forward\<close> once the position bias \<open>pb\<close> is known: scores,
  softmax, head mask, context and output projection, and the members of the returned
  tuple. The mask is not an argument: it reaches the scores only inside \<open>pb\<close>.
\<close>

definition attention_apply ::
    "T5Attention \<Rightarrow> tensor3 \<Rightarrow> tensor3 option \<Rightarrow> tensor4 list option \<Rightarrow> tensor4 option
       \<Rightarrow> bool \<Rightarrow> bool \<Rightarrow> tensor4 \<Rightarrow> attention_outputs" where
  "attention_apply m input kv past_key_value_state head_mask use_cache output_attentions pb =
     (let qs = shape m (Linear_forward (q_weight m) input);
          ks = fst (key_value_states m input kv past_key_value_state);
          vs = snd (key_value_states m input kv past_key_value_state);
          present = (if is_decoder m \<and> use_cache then Some (ks, vs) else None);
          scores = einsum_bnqd_bnkd qs ks;
          scores' = badd4 scores pb;
          w = softmax4 scores';
          w' = (case head_mask of None \<Rightarrow> w | Some hm \<Rightarrow> bmul4 w hm);
          ctx = Linear_forward (o_weight m) (unshape m (matmul4 w' vs))
      in \<lparr> att_context = ctx,
           att_present = present,
           att_weights = (if output_attentions then Some w' else None),
           att_position_bias = (if has_relative_attention_bias m then Some pb else None) \<rparr>)"

text \<open>
  \<^verbatim>\<open>T5Attention.forward\<close>. The two assertions on a cache come first; the only other
  exception of the function is the ValueError of a missing bias (and what
  \<^verbatim>\<open>compute_bias\<close> raises).
\<close>

definition T5Attention_forward ::
    "T5Attention \<Rightarrow> tensor3 \<Rightarrow> tensor4 option \<Rightarrow> tensor3 option \<Rightarrow> tensor4 option
       \<Rightarrow> tensor4 list option \<Rightarrow> tensor4 option \<Rightarrow> nat option \<Rightarrow> bool \<Rightarrow> bool
       \<Rightarrow> error + attention_outputs" where
  "T5Attention_forward m input amask kv position_bias past_key_value_state head_mask
       query_length use_cache output_attentions =
     (if past_key_value_state \<noteq> None \<and> \<not> is_decoder m then Inl AssertionError
      else if past_key_value_state \<noteq> None \<and> length (the past_key_value_state) \<noteq> 2
        then Inl AssertionError
      else
       (let real_qlen = attention_real_qlen input past_key_value_state query_length;
            klen = attention_klen input kv past_key_value_state query_length
        in case attention_position_bias m amask position_bias past_key_value_state real_qlen klen of
             Inl e \<Rightarrow> Inl e
           | Inr pb \<Rightarrow>
               Inr (attention_apply m input kv past_key_value_state head_mask
                      use_cache output_attentions pb)))"

section \<open>Layers and T5Block\<close>

record T5DenseReluDense =
  wi :: mat
  wo :: mat

definition relu :: "real \<Rightarrow> real" where
  "relu x = max 0 x"

definition T5DenseReluDense_forward :: "T5DenseReluDense \<Rightarrow> tensor3 \<Rightarrow> tensor3" where
  "T5DenseReluDense_forward m hidden_states =
     (let h = Linear_forward (wi m) hidden_states;
          h' = map (map (map relu)) h
      in Linear_forward (wo m) h')"

record T5LayerFF =
  DenseReluDense :: T5DenseReluDense
  ff_layer_norm :: T5LayerNorm

definition T5LayerFF_forward :: "T5LayerFF \<Rightarrow> tensor3 \<Rightarrow> tensor3" where
  "T5LayerFF_forward m hidden_states =
     (let norm_x = T5LayerNorm_forward (ff_layer_norm m) hidden_states;
          y = T5DenseReluDense_forward (DenseReluDense m) norm_x
      in add3 hidden_states y)"

record T5LayerSelfAttention =
  SelfAttention :: T5Attention
  sa_layer_norm :: T5LayerNorm

text \<open>
  The layer returns the tuple of the attention with its first member replaced by the
  residual sum.
\<close>

definition T5LayerSelfAttention_forward ::
    "T5LayerSelfAttention \<Rightarrow> tensor3 \<Rightarrow> tensor4 option \<Rightarrow> tensor4 option \<Rightarrow> tensor4 option
       \<Rightarrow> tensor4 list option \<Rightarrow> bool \<Rightarrow> bool \<Rightarrow> error + attention_outputs" where
  "T5LayerSelfAttention_forward m hidden_states attention_mask position_bias head_mask
       past_key_value_state use_cache output_attentions =
     (let norm_x = T5LayerNorm_forward (sa_layer_norm m) hidden_states
      in case T5Attention_forward (SelfAttention m) norm_x attention_mask None position_bias
                past_key_value_state head_mask None use_cache output_attentions of
           Inl e \<Rightarrow> Inl e
         | Inr attention_output \<Rightarrow>
             Inr (attention_output
                   \<lparr> att_context := add3 hidden_states (att_context attention_output) \<rparr>))"

record T5LayerCrossAttention =
  EncDecAttention :: T5Attention
  ca_layer_norm :: T5LayerNorm

definition T5LayerCrossAttention_forward ::
    "T5LayerCrossAttention \<Rightarrow> tensor3 \<Rightarrow> tensor3 \<Rightarrow> tensor4 option \<Rightarrow> tensor4 option
       \<Rightarrow> tensor4 option \<Rightarrow> tensor4 list option \<Rightarrow> bool \<Rightarrow> nat option \<Rightarrow> bool
       \<Rightarrow> error + attention_outputs" where
  "T5LayerCrossAttention_forward m hidden_states kv attention_mask position_bias head_mask
       past_key_value_state use_cache query_length output_attentions =
     (let norm_x = T5LayerNorm_forward (ca_layer_norm m) hidden_states
      in case T5Attention_forward (EncDecAttention m) norm_x attention_mask (Some kv) position_bias
                past_key_value_state head_mask query_length use_cache output_attentions of
           Inl e \<Rightarrow> Inl e
         | Inr attention_output \<Rightarrow>
             Inr (attention_output
                   \<lparr> att_context := add3 hidden_states (att_context attention_output) \<rparr>))"

text \<open>
  \<^verbatim>\<open>T5Block\<close>: the module list \<^verbatim>\<open>self.layer\<close> holds the self-attention layer, then the
  cross-attention layer when the block was built as a decoder, then the feed-forward
  layer. The record names the three places; a block without a cross-attention layer has
  the feed-forward layer at index 1, which does not accept the arguments of the
  cross-attention call (TypeError).
\<close>

record T5Block =
  block_is_decoder :: bool
  layer_0 :: T5LayerSelfAttention
  layer_1 :: "T5LayerCrossAttention option"
  layer_last :: T5LayerFF

text \<open>
  The returned tuple: hidden states, present key/value states (two or four tensors),
  then the optional self-attention weights and position bias and the optional
  cross-attention weights and position bias.
\<close>

record block_outputs =
  blk_hidden_states :: tensor3
  blk_present_key_value_state :: "tensor4 list option"
  blk_self_weights :: "tensor4 option"
  blk_position_bias :: "tensor4 option"
  blk_cross_weights :: "tensor4 option"
  blk_encoder_decoder_position_bias :: "tensor4 option"

text \<open>
  The body of \<^verbatim>\<open>T5Block.forward\<close> after the checks on the cache: the three
  sub-layers.
\<close>

definition T5Block_sublayers ::
    "T5Block \<Rightarrow> tensor3 \<Rightarrow> tensor4 option \<Rightarrow> tensor4 option \<Rightarrow> tensor3 option
       \<Rightarrow> tensor4 option \<Rightarrow> tensor4 option \<Rightarrow> tensor4 option
       \<Rightarrow> tensor4 list option \<Rightarrow> tensor4 list option \<Rightarrow> bool \<Rightarrow> bool
       \<Rightarrow> error + block_outputs" where
  "T5Block_sublayers m hidden_states attention_mask position_bias encoder_hidden_states
       encoder_attention_mask encoder_decoder_position_bias head_mask
       self_attn_past_key_value_state cross_attn_past_key_value_state
       use_cache output_attentions =
     (case T5LayerSelfAttention_forward (layer_0 m) hidden_states attention_mask position_bias
             head_mask self_attn_past_key_value_state use_cache output_attentions of
        Inl e \<Rightarrow> Inl e
      | Inr self_attention_outputs \<Rightarrow>
         (let hidden_states1 = att_context self_attention_outputs;
              present_key_value_state =
                map_option (\<lambda>(ks, vs). [ks, vs]) (att_present self_attention_outputs)
          in if block_is_decoder m \<and> encoder_hidden_states \<noteq> None then
               (let query_length = map_option (\<lambda>p. shape2 (p ! 0)) present_key_value_state
                in case layer_1 m of
                     None \<Rightarrow> Inl TypeError
                   | Some cross \<Rightarrow>
                      (case T5LayerCrossAttention_forward cross hidden_states1
                              (the encoder_hidden_states) encoder_attention_mask
                              encoder_decoder_position_bias head_mask
                              cross_attn_past_key_value_state use_cache query_length
                              output_attentions of
                         Inl e \<Rightarrow> Inl e
                       | Inr cross_attention_outputs \<Rightarrow>
                          (case (present_key_value_state, att_present cross_attention_outputs) of
                             (Some p, None) \<Rightarrow> Inl TypeError
                           | (present, cross_present) \<Rightarrow>
                               Inr \<lparr> blk_hidden_states =
                                       T5LayerFF_forward (layer_last m)
                                         (att_context cross_attention_outputs),
                                     blk_present_key_value_state =
                                       (case present of
                                          None \<Rightarrow> None
                                        | Some p \<Rightarrow>
                                            Some (p @ (case the cross_present of
                                                         (ks, vs) \<Rightarrow> [ks, vs]))),
                                     blk_self_weights = att_weights self_attention_outputs,
                                     blk_position_bias = att_position_bias self_attention_outputs,
                                     blk_cross_weights = att_weights cross_attention_outputs,
                                     blk_encoder_decoder_position_bias =
                                       att_position_bias cross_attention_outputs \<rparr>)))
             else
               Inr \<lparr> blk_hidden_states = T5LayerFF_forward (layer_last m) hidden_states1,
                     blk_present_key_value_state = present_key_value_state,
                     blk_self_weights = att_weights self_attention_outputs,
                     blk_position_bias = att_position_bias self_attention_outputs,
                     blk_cross_weights = None,
                     blk_encoder_decoder_position_bias = None \<rparr>))"

text \<open>
  \<^verbatim>\<open>T5Block.forward\<close>: with a cache, the two assertions come before anything else;
  then the cache is split into its first two and its remaining members.
\<close>

definition T5Block_forward ::
    "T5Block \<Rightarrow> tensor3 \<Rightarrow> tensor4 option \<Rightarrow> tensor4 option \<Rightarrow> tensor3 option
       \<Rightarrow> tensor4 option \<Rightarrow> tensor4 option \<Rightarrow> tensor4 option
       \<Rightarrow> tensor4 list option \<Rightarrow> bool \<Rightarrow> bool \<Rightarrow> error + block_outputs" where
  "T5Block_forward m hidden_states attention_mask position_bias encoder_hidden_states
       encoder_attention_mask encoder_decoder_position_bias head_mask
       past_key_value_state use_cache output_attentions =
     (case past_key_value_state of
        Some past \<Rightarrow>
          if \<not> block_is_decoder m then Inl AssertionError
          else
            (let expected_num_past_key_value_states =
                   (if encoder_hidden_states = None then 2 else 4 :: nat)
             in if length past \<noteq> expected_num_past_key_value_states then Inl AssertionError
                else T5Block_sublayers m hidden_states attention_mask position_bias
                       encoder_hidden_states encoder_attention_mask
                       encoder_decoder_position_bias head_mask
                       (Some (take 2 past)) (Some (drop 2 past)) use_cache output_attentions)
      | None \<Rightarrow>
          T5Block_sublayers m hidden_states attention_mask position_bias
            encoder_hidden_states encoder_attention_mask
            encoder_decoder_position_bias head_mask None None use_cache output_attentions)"

section \<open>Extended attention mask\<close>

text \<open>
  Modelled from the spec: \<^verbatim>\<open>get_extended_attention_mask\<close> is inherited from the class
  \<^verbatim>\<open>PreTrainedModel\<close> of the transformers library and is not part of the sources. The
  specification (4.5): it converts a \<open>[batch, key length]\<close> mask of zeros and ones into an
  additive mask with a large negative value at the disallowed positions, broadcastable
  over heads and query positions, and for the self-attention of a decoder the mask also
  enforces causality: a position may not attend to strictly later positions. The large
  negative value is the constant \<open>-10000\<close> of the library function. The result has the
  shape \<open>[batch, 1, query length, key length]\<close> for a decoder and
  \<open>[batch, 1, 1, key length]\<close> otherwise.
\<close>

definition get_extended_attention_mask :: "bool \<Rightarrow> mat \<Rightarrow> nat \<Rightarrow> tensor4" where
  "get_extended_attention_mask decoder attention_mask seq_length =
     map (\<lambda>am.
            [if decoder
             then map (\<lambda>i. map (\<lambda>j. (1 - (if j \<le> i then 1 else 0) * (am ! j)) * (- 10000))
                                [0..<length am])
                    [0..<seq_length]
             else [map (\<lambda>a. (1 - a) * (- 10000)) am]])
         attention_mask"

section \<open>The layer loop of T5Stack\<close>

text \<open>
  The tuple returned by a block is \<^verbatim>\<open>(hidden_states, present_key_value_state)\<close> followed
  by those of the four optional members that are there. \<^verbatim>\<open>layer_outputs[k]\<close> for
  \<open>k \<ge> 2\<close>, the only positions that \<^verbatim>\<open>T5Stack.forward\<close> reads by number:
\<close>

definition layer_outputs_nth :: "block_outputs \<Rightarrow> nat \<Rightarrow> error + tensor4" where
  "layer_outputs_nth layer_outputs k =
     (let members = List.map_filter id
            [blk_self_weights layer_outputs, blk_position_bias layer_outputs,
             blk_cross_weights layer_outputs, blk_encoder_decoder_position_bias layer_outputs]
      in if 2 \<le> k \<and> k - 2 < length members then Inr (members ! (k - 2))
         else Inl IndexError)"

text \<open>The variables that the loop of \<^verbatim>\<open>T5Stack.forward\<close> updates.\<close>

record stack_state =
  st_hidden_states :: tensor3
  st_position_bias :: "tensor4 option"
  st_encoder_decoder_position_bias :: "tensor4 option"
  st_present_key_value_states :: "tensor4 list option list"
  st_all_hidden_states :: "tensor3 list"
  st_all_attentions :: "tensor4 list"

text \<open>
  The loop \<^verbatim>\<open>for i, (layer_module, past_key_value_state) in enumerate(zip(self.block,
  past_key_value_states))\<close> of \<^verbatim>\<open>T5Stack.forward\<close>, from index \<open>i\<close> on. The extended masks
  and the list of head masks come from functions of the transformers library and are
  arguments. Only the layer of index 0 stores the position biases that it returns; every
  later layer is called with the stored ones.
\<close>

fun T5Stack_layers ::
    "bool \<Rightarrow> tensor4 option \<Rightarrow> tensor3 option \<Rightarrow> tensor4 option \<Rightarrow> tensor4 option list
       \<Rightarrow> bool \<Rightarrow> bool \<Rightarrow> bool \<Rightarrow> nat \<Rightarrow> (T5Block \<times> tensor4 list option) list
       \<Rightarrow> stack_state \<Rightarrow> error + stack_state" where
  "T5Stack_layers stack_is_decoder extended_attention_mask encoder_hidden_states
       encoder_extended_attention_mask head_mask use_cache output_attentions
       output_hidden_states i [] st = Inr st"
| "T5Stack_layers stack_is_decoder extended_attention_mask encoder_hidden_states
       encoder_extended_attention_mask head_mask use_cache output_attentions
       output_hidden_states i ((layer_module, past_key_value_state) # rest) st =
     (let st1 = (if output_hidden_states
                 then st \<lparr> st_all_hidden_states :=
                             st_all_hidden_states st @ [st_hidden_states st] \<rparr>
                 else st)
      in if \<not> i < length head_mask then Inl IndexError
         else
          (case T5Block_forward layer_module (st_hidden_states st1) extended_attention_mask
                  (st_position_bias st1) encoder_hidden_states encoder_extended_attention_mask
                  (st_encoder_decoder_position_bias st1) (head_mask ! i) past_key_value_state
                  use_cache output_attentions of
             Inl e \<Rightarrow> Inl e
           | Inr layer_outputs \<Rightarrow>
              (case (if i = 0 then
                       (case layer_outputs_nth layer_outputs (if output_attentions then 3 else 2) of
                          Inl e \<Rightarrow> Inl e
                        | Inr pb \<Rightarrow>
                            if stack_is_decoder \<and> encoder_hidden_states \<noteq> None then
                              (case layer_outputs_nth layer_outputs
                                      (if output_attentions then 5 else 3) of
                                 Inl e \<Rightarrow> Inl e
                               | Inr eb \<Rightarrow> Inr (Some pb, Some eb))
                            else Inr (Some pb, st_encoder_decoder_position_bias st1))
                     else Inr (st_position_bias st1, st_encoder_decoder_position_bias st1)) of
                 Inl e \<Rightarrow> Inl e
               | Inr (position_bias, encoder_decoder_position_bias) \<Rightarrow>
                  (case (if output_attentions
                         then (case layer_outputs_nth layer_outputs 2 of
                                 Inl e \<Rightarrow> Inl e
                               | Inr w \<Rightarrow> Inr (st_all_attentions st1 @ [w]))
                         else Inr (st_all_attentions st1)) of
                     Inl e \<Rightarrow> Inl e
                   | Inr all_attentions \<Rightarrow>
                       T5Stack_layers stack_is_decoder extended_attention_mask
                         encoder_hidden_states encoder_extended_attention_mask head_mask
                         use_cache output_attentions output_hidden_states (Suc i) rest
                         (st1 \<lparr> st_hidden_states := blk_hidden_states layer_outputs,
                                st_position_bias := position_bias,
                                st_encoder_decoder_position_bias := encoder_decoder_position_bias,
                                st_present_key_value_states :=
                                  st_present_key_value_states st1
                                    @ [blk_present_key_value_state layer_outputs],
                                st_all_attentions := all_attentions \<rparr>)))))"

section \<open>Head pruning\<close>

text \<open>
  Modelled from the spec: \<^verbatim>\<open>find_pruneable_heads_and_indices\<close> and \<^verbatim>\<open>prune_linear_layer\<close>
  are imported from \<^verbatim>\<open>transformers.modeling_utils\<close> and are not part of the sources. The
  specification says that pruning removes the given head indices from the projection
  matrices and records the pruned heads. The first helper returns the heads that are not
  pruned yet, and the indices of the rows that stay: a head is located among the current
  \<open>n_heads\<close> heads by subtracting the number of pruned heads below it, a position outside
  the current heads is an IndexError, and a negative position counts from the end as in
  Python. The second helper selects the given rows (\<^verbatim>\<open>dim=0\<close>) or columns (\<^verbatim>\<open>dim=1\<close>)
  of a weight matrix, and fails on an index outside the matrix.
\<close>

definition find_pruneable_heads_and_indices ::
    "int list \<Rightarrow> int \<Rightarrow> nat \<Rightarrow> int fset \<Rightarrow> error + (int fset \<times> nat list)" where
  "find_pruneable_heads_and_indices heads n_heads' head_size already_pruned_heads =
     (if n_heads' < 0 then Inl RuntimeError
      else
        (let heads' = fset_of_list heads |-| already_pruned_heads;
             rows = (\<lambda>head. head - int (fcard (ffilter (\<lambda>h. h < head) already_pruned_heads)))
                      |`| heads'
         in if \<not> fBall rows (\<lambda>r. - n_heads' \<le> r \<and> r < n_heads') then Inl IndexError
            else
              (let zeroed = (\<lambda>r. if r < 0 then r + n_heads' else r) |`| rows;
                   index = filter (\<lambda>i. int (i div head_size) |\<notin>| zeroed)
                             [0..<nat n_heads' * head_size]
               in Inr (heads', index))))"

definition prune_linear_layer :: "mat \<Rightarrow> nat list \<Rightarrow> nat \<Rightarrow> error + mat" where
  "prune_linear_layer w index axis =
     (if axis = 0 then
        (if list_all (\<lambda>i. i < length w) index then Inr (map (\<lambda>i. w ! i) index)
         else Inl IndexError)
      else
        (if list_all (\<lambda>row. list_all (\<lambda>i. i < length row) index) w
         then Inr (map (\<lambda>row. map (\<lambda>i. row ! i) index) w)
         else Inl IndexError))"

text \<open>
  \<^verbatim>\<open>T5Attention.prune_heads\<close> returns the module after its assignments. An exception
  leaves the object partly assigned in Python; the model returns the error only.
\<close>

definition prune_heads :: "T5Attention \<Rightarrow> int list \<Rightarrow> error + T5Attention" where
  "prune_heads m heads =
     (if length heads = 0 then Inr m
      else
        (case find_pruneable_heads_and_indices heads (n_heads m) (d_kv m) (pruned_heads m) of
           Inl e \<Rightarrow> Inl e
         | Inr (heads', index) \<Rightarrow>
            (case prune_linear_layer (q_weight m) index 0 of
               Inl e \<Rightarrow> Inl e
             | Inr q' \<Rightarrow>
            (case prune_linear_layer (k_weight m) index 0 of
               Inl e \<Rightarrow> Inl e
             | Inr k' \<Rightarrow>
            (case prune_linear_layer (v_weight m) index 0 of
               Inl e \<Rightarrow> Inl e
             | Inr v' \<Rightarrow>
            (case prune_linear_layer (o_weight m) index 1 of
               Inl e \<Rightarrow> Inl e
             | Inr o' \<Rightarrow>
                (let n_heads' = n_heads m - int (fcard heads')
                 in Inr (m \<lparr> q_weight := q', k_weight := k', v_weight := v', o_weight := o',
                            n_heads := n_heads',
                            inner_dim := int (d_kv m) * n_heads',
                            pruned_heads := pruned_heads m |\<union>| heads' \<rparr>))))))))"

text \<open>
  The state of a module as \<^verbatim>\<open>__init__\<close> and \<^verbatim>\<open>prune_heads\<close> leave it: the projections
  have \<open>n_heads * d_kv\<close> rows (columns for the output projection), and the pruned heads
  are among the heads the module was built with, whose number is \<open>n_heads\<close> plus the number
  of pruned heads.
\<close>

definition attention_wf :: "T5Attention \<Rightarrow> bool" where
  "attention_wf m \<longleftrightarrow>
     0 \<le> n_heads m
     \<and> length (q_weight m) = nat (n_heads m) * d_kv m
     \<and> length (k_weight m) = nat (n_heads m) * d_kv m
     \<and> length (v_weight m) = nat (n_heads m) * d_kv m
     \<and> list_all (\<lambda>row. length row = nat (n_heads m) * d_kv m) (o_weight m)
     \<and> fBall (pruned_heads m) (\<lambda>h. 0 \<le> h \<and> h < n_heads m + int (fcard (pruned_heads m)))"

section \<open>JointEncoder\<close>








section \<open>Example modules\<close>

text \<open>
  Two small attention modules, one head of width one: a decoder module without a bias
  table and an encoder module that owns a table of four buckets.
\<close>

definition example_decoder_attention :: T5Attention where
  "example_decoder_attention =
     \<lparr> is_decoder = True, has_relative_attention_bias = False,
       relative_attention_num_buckets = 4, d_model = 1, d_kv = 1, n_heads = 1, inner_dim = 1,
       q_weight = [[1]], k_weight = [[1]], v_weight = [[1]], o_weight = [[1]],
       relative_attention_bias = None, pruned_heads = {||} \<rparr>"

definition example_encoder_attention :: T5Attention where
  "example_encoder_attention =
     \<lparr> is_decoder = False, has_relative_attention_bias = True,
       relative_attention_num_buckets = 4, d_model = 1, d_kv = 1, n_heads = 1, inner_dim = 1,
       q_weight = [[1]], k_weight = [[1]], v_weight = [[1]], o_weight = [[1]],
       relative_attention_bias =
         Some \<lparr> num_embeddings = 4, embedding_dim = 1, emb_weight = [[5], [6], [7], [8]] \<rparr>,
       pruned_heads = {||} \<rparr>"

text \<open>
  A decoder attention module that owns a bias table; its query projection is large, so
  that scores differ by more than the magnitude of the additive mask.
\<close>

definition example_decoder_bias_attention :: T5Attention where
  "example_decoder_bias_attention =
     \<lparr> is_decoder = True, has_relative_attention_bias = True,
       relative_attention_num_buckets = 4, d_model = 1, d_kv = 1, n_heads = 1, inner_dim = 1,
       q_weight = [[20000]], k_weight = [[1]], v_weight = [[1]], o_weight = [[1]],
       relative_attention_bias =
         Some \<lparr> num_embeddings = 4, embedding_dim = 1, emb_weight = [[5], [6], [7], [8]] \<rparr>,
       pruned_heads = {||} \<rparr>"

text \<open>A decoder block around the example decoder attention.\<close>

definition example_decoder_block :: T5Block where
  "example_decoder_block =
     \<lparr> block_is_decoder = True,
       layer_0 = \<lparr> SelfAttention = example_decoder_attention,
                   sa_layer_norm = \<lparr> ln_weight = [1], variance_epsilon = 1 \<rparr> \<rparr>,
       layer_1 = Some \<lparr> EncDecAttention = example_decoder_attention,
                        ca_layer_norm = \<lparr> ln_weight = [1], variance_epsilon = 1 \<rparr> \<rparr>,
       layer_last = \<lparr> DenseReluDense = \<lparr> wi = [[1]], wo = [[1]] \<rparr>,
                      ff_layer_norm = \<lparr> ln_weight = [1], variance_epsilon = 1 \<rparr> \<rparr> \<rparr>"


text \<open>An encoder attention module with two heads of width one and nothing pruned.\<close>

definition example_two_head_attention :: T5Attention where
  "example_two_head_attention =
     \<lparr> is_decoder = False, has_relative_attention_bias = False,
       relative_attention_num_buckets = 4, d_model = 1, d_kv = 1, n_heads = 2, inner_dim = 2,
       q_weight = [[1], [2]], k_weight = [[3], [4]], v_weight = [[5], [6]], o_weight = [[7, 8]],
       relative_attention_bias = None, pruned_heads = {||} \<rparr>"

section \<open>Properties of the relative position buckets\<close>

lemma log_ratio_nonneg:
  fixes me md n :: int
  assumes "1 \<le> me" "me < md" "me \<le> n" "me \<le> nb"
  shows "0 \<le> ln (real_of_int n / real_of_int me) / ln (real_of_int md / real_of_int me) * real_of_int (nb - me)"
proof -
  have a: "1 \<le> real_of_int n / real_of_int me" using assms by simp
  have b: "1 < real_of_int md / real_of_int me" using assms by simp
  have "0 \<le> ln (real_of_int n / real_of_int me)" using a by simp
  moreover have "0 < ln (real_of_int md / real_of_int me)" using b by simp
  moreover have "0 \<le> real_of_int (nb - me)" using assms by simp
  ultimately show ?thesis by simp
qed

lemma log_ratio_mono:
  fixes me md n1 n2 :: int
  assumes "1 \<le> me" "me < md" "me \<le> n1" "n1 \<le> n2" "me \<le> nb"
  shows "ln (real_of_int n1 / real_of_int me) / ln (real_of_int md / real_of_int me) * real_of_int (nb - me)
       \<le> ln (real_of_int n2 / real_of_int me) / ln (real_of_int md / real_of_int me) * real_of_int (nb - me)"
proof -
  have me: "0 < real_of_int me" using assms by simp
  have "real_of_int n1 / real_of_int me \<le> real_of_int n2 / real_of_int me"
    using assms me by (simp add: divide_right_mono)
  moreover have "0 < real_of_int n1 / real_of_int me" using assms me by simp
  ultimately have l: "ln (real_of_int n1 / real_of_int me) \<le> ln (real_of_int n2 / real_of_int me)"
    by (simp del: of_int_le_iff)
  have b: "1 < real_of_int md / real_of_int me" using assms by simp
  have d: "0 < ln (real_of_int md / real_of_int me)" using b by simp
  have k: "0 \<le> real_of_int (nb - me)" using assms by simp
  show ?thesis using l d k by (intro mult_right_mono divide_right_mono) simp_all
qed

lemma ln_ratio_nonzero:
  fixes me md :: int
  assumes "1 \<le> me" "me < md"
  shows "ln (real_of_int md / real_of_int me) \<noteq> 0" "\<not> real_of_int md / real_of_int me \<le> 0"
proof -
  have b: "1 < real_of_int md / real_of_int me" using assms by simp
  have "0 < ln (real_of_int md / real_of_int me)" using b by (rule ln_gt_zero)
  then show "ln (real_of_int md / real_of_int me) \<noteq> 0" by linarith
  show "\<not> real_of_int md / real_of_int me \<le> 0" using b by linarith
qed

lemma bucket_small:
  assumes "n = (if bidirectional then \<bar>- r\<bar> else max (- r) 0)"
    and "nb = (if bidirectional then num_buckets div 2 else num_buckets)"
    and "nb div 2 \<noteq> 0" and "\<not> real_of_int max_distance / real_of_int (nb div 2) \<le> 0"
    and "n < nb div 2"
  shows "relative_position_bucket bidirectional num_buckets max_distance r =
      Inr ((if bidirectional \<and> 0 < r then nb else 0) + n)"
  unfolding relative_position_bucket_def Let_def
  unfolding assms(1)[symmetric] assms(2)[symmetric]
  using assms(3-) by simp

lemma bucket_large:
  assumes "n = (if bidirectional then \<bar>- r\<bar> else max (- r) 0)"
    and "nb = (if bidirectional then num_buckets div 2 else num_buckets)"
    and "nb div 2 \<noteq> 0" and "\<not> real_of_int max_distance / real_of_int (nb div 2) \<le> 0"
    and "\<not> n < nb div 2"
    and "\<not> real_of_int n / real_of_int (nb div 2) \<le> 0"
    and "ln (real_of_int max_distance / real_of_int (nb div 2)) \<noteq> 0"
  shows "relative_position_bucket bidirectional num_buckets max_distance r =
      Inr ((if bidirectional \<and> 0 < r then nb else 0) +
        min (nb div 2 + to_long (ln (real_of_int n / real_of_int (nb div 2))
                          / ln (real_of_int max_distance / real_of_int (nb div 2))
                          * real_of_int (nb - nb div 2))) (nb - 1))"
  unfolding relative_position_bucket_def Let_def
  unfolding assms(1)[symmetric] assms(2)[symmetric]
  using assms(3-) by simp


lemma log_steps_mono:
  assumes me: "1 \<le> nb div 2" and md: "nb div 2 < max_distance" and ge: "nb div 2 \<le> n1"
    and le: "n1 \<le> n2"
  shows "log_steps nb max_distance n1 \<le> log_steps nb max_distance n2"
proof -
  have menb: "nb div 2 \<le> nb" using me by simp
  show ?thesis unfolding log_steps_def
    using log_ratio_mono[OF me md ge le menb] by (rule floor_mono)
qed

lemma bucket_closed_form:
  assumes nb: "nb = (if bidirectional then num_buckets div 2 else num_buckets)"
    and me: "1 \<le> nb div 2" and md: "nb div 2 < max_distance"
  shows "relative_position_bucket bidirectional num_buckets max_distance r =
      Inr ((if bidirectional \<and> 0 < r then nb else 0) +
           half_bucket nb max_distance (if bidirectional then \<bar>r\<bar> else max (- r) 0))"
proof -
  define n where "n = (if bidirectional then \<bar>- r\<bar> else max (- r) 0)"
  have n': "(if bidirectional then \<bar>r\<bar> else max (- r) 0) = n" by (simp add: n_def)
  have nz: "nb div 2 \<noteq> 0" using me by simp
  have menb: "nb div 2 \<le> nb" using me by simp
  note lz = ln_ratio_nonzero[OF me md]
  show ?thesis
  proof (cases "n < nb div 2")
    case True
    show ?thesis unfolding n'
      using bucket_small[OF n_def nb nz lz(2) True] True by (simp add: half_bucket_def)
  next
    case False
    then have ge: "nb div 2 \<le> n" by simp
    have "0 < real_of_int n / real_of_int (nb div 2)"
      using ge me by (intro divide_pos_pos) simp_all
    then have pos: "\<not> real_of_int n / real_of_int (nb div 2) \<le> 0" by linarith
    have tl: "to_long (ln (real_of_int n / real_of_int (nb div 2)) / ln (real_of_int max_distance / real_of_int (nb div 2)) * real_of_int (nb - nb div 2))
        = log_steps nb max_distance n"
      unfolding log_steps_def to_long_def
      using log_ratio_nonneg[OF me md ge menb] by (simp only: if_True)
    show ?thesis unfolding n'
      using bucket_large[OF n_def nb nz lz(2) False pos lz(1)] False
      unfolding tl by (simp add: half_bucket_def)
  qed
qed







lemma spec_bucket_half_bucket:
  "spec_bucket (2 * nb) max_distance n = half_bucket nb max_distance n"
proof -
  have a: "(2 * nb) div 4 = nb div 2" by simp
  have b: "(2 * nb) div 2 = nb" by simp
  show ?thesis unfolding spec_bucket_def half_bucket_def log_steps_def Let_def a b ..
qed

lemma spec_bucket_div:
  "spec_bucket num_buckets max_distance n = half_bucket (num_buckets div 2) max_distance n"
proof -
  have a: "num_buckets div 4 = num_buckets div 2 div 2" by simp
  show ?thesis unfolding spec_bucket_def half_bucket_def log_steps_def Let_def a ..
qed

lemma log_steps_boundary:
  assumes me: "1 \<le> nb div 2"
  shows "log_steps nb max_distance (nb div 2) = 0"
proof -
  have "real_of_int (nb div 2) / real_of_int (nb div 2) = 1" using me by simp
  then show ?thesis unfolding log_steps_def by simp
qed

lemma log_steps_far:
  assumes me: "1 \<le> nb div 2" and md: "nb div 2 < max_distance" and far: "max_distance \<le> n"
  shows "nb - nb div 2 \<le> log_steps nb max_distance n"
proof -
  have menb: "nb div 2 \<le> nb" using me by simp
  have ge: "nb div 2 \<le> max_distance" using md by simp
  have eq: "ln (real_of_int max_distance / real_of_int (nb div 2))
           / ln (real_of_int max_distance / real_of_int (nb div 2)) * real_of_int (nb - nb div 2)
         = real_of_int (nb - nb div 2)"
    using ln_ratio_nonzero(1)[OF me md] by simp
  have "log_steps nb max_distance max_distance = nb - nb div 2"
    unfolding log_steps_def eq by simp
  then show ?thesis using log_steps_mono[OF me md ge far] by simp
qed

text \<open>
  C2 (amended). In the bidirectional mode the bucket is the specification's two-region
  formula applied to the absolute offset, plus \<open>num_buckets div 2\<close> for a positive
  relative position. In the unidirectional mode the exact region is \<open>num_buckets div 2\<close>
  wide and the logarithmic factor is \<open>num_buckets - max_exact\<close>: the specification's
  formula at twice the bucket count. In both modes an offset below \<open>max_exact\<close> maps to
  itself, the offset \<open>max_exact\<close> takes the logarithmic branch (which yields
  \<open>max_exact\<close>), and every offset from \<open>max_distance\<close> on maps to the last bucket of
  its range.
\<close>

theorem relative_position_bucket_two_regions:
  assumes nb: "nb = (if bidirectional then num_buckets div 2 else num_buckets)"
    and me: "1 \<le> nb div 2" and md: "nb div 2 < max_distance"
    and n: "n = (if bidirectional then \<bar>r\<bar> else max (- r) 0)"
    and base: "base = (if bidirectional \<and> 0 < r then nb else 0)"
  shows "relative_position_bucket bidirectional num_buckets max_distance r =
           Inr (base + spec_bucket (if bidirectional then num_buckets else 2 * num_buckets)
                         max_distance n)
       \<and> (n < nb div 2 \<longrightarrow>
            relative_position_bucket bidirectional num_buckets max_distance r = Inr (base + n))
       \<and> (n = nb div 2 \<longrightarrow>
            relative_position_bucket bidirectional num_buckets max_distance r = Inr (base + nb div 2))
       \<and> (max_distance \<le> n \<longrightarrow>
            relative_position_bucket bidirectional num_buckets max_distance r = Inr (base + (nb - 1)))"
proof -
  have menb: "nb div 2 \<le> nb" using me by simp
  have cf: "relative_position_bucket bidirectional num_buckets max_distance r =
      Inr (base + half_bucket nb max_distance n)"
    unfolding n base by (rule bucket_closed_form[OF nb me md])
  have sp: "spec_bucket (if bidirectional then num_buckets else 2 * num_buckets) max_distance n
      = half_bucket nb max_distance n"
    using nb by (simp add: spec_bucket_half_bucket spec_bucket_div)
  have small: "n < nb div 2 \<Longrightarrow> half_bucket nb max_distance n = n"
    by (simp add: half_bucket_def)
  have bd: "n = nb div 2 \<Longrightarrow> half_bucket nb max_distance n = nb div 2"
    using log_steps_boundary[OF me, of max_distance] me menb
    by (simp add: half_bucket_def min_def)
  have far: "max_distance \<le> n \<Longrightarrow> half_bucket nb max_distance n = nb - 1"
    using log_steps_far[OF me md, of n] md by (simp add: half_bucket_def min_def)
  show ?thesis unfolding cf sp using small bd far by simp
qed

theorem relative_position_bucket_two_regions_witness:
  "relative_position_bucket False 32 128 (- 9) = Inr (spec_bucket 64 128 9)
   \<and> relative_position_bucket False 32 128 (- 9) = Inr 9"
  using relative_position_bucket_two_regions [of 32 False 32 128 9 "- 9" 0]
  by auto

lemma ln_nine_eighths: "ln (9 / 8 :: real) * 8 < ln 16"
proof -
  have "ln ((9 / 8 :: real) ^ 8) = 8 * ln (9 / 8)" by (simp add: ln_realpow)
  moreover have "ln ((9 / 8 :: real) ^ 8) < ln 16"
    by (subst ln_less_cancel_iff) (simp_all add: power_divide)
  ultimately show ?thesis by simp
qed

lemma spec_bucket_32_9: "spec_bucket 32 128 9 = 8"
proof -
  have pos: "0 < ln (16::real)" by simp
  have nn: "0 \<le> ln (9 / 8 :: real)" by simp
  have lt: "ln (9 / 8 :: real) / ln 16 * 8 < 1"
    using ln_nine_eighths pos by (simp add: field_simps)
  have ge: "0 \<le> ln (9 / 8 :: real) / ln 16 * 8" using nn pos by simp
  have "\<lfloor>ln (9 / 8 :: real) / ln 16 * 8\<rfloor> = 0" using lt ge by (simp add: floor_eq_iff)
  then show ?thesis by (simp add: spec_bucket_def Let_def)
qed

text \<open>
  C2 as stated fails in the unidirectional mode: with 32 buckets the offset 9 is still in
  the exact region of the code and maps to 9, while the specification's formula (exact
  region \<open>32/4 = 8\<close>) sends it to the logarithmic branch and to bucket 8.
\<close>

theorem relative_position_bucket_unidirectional_counterexample:
  "relative_position_bucket False 32 128 (- 9) \<noteq> Inr (spec_bucket 32 128 9)"
  unfolding spec_bucket_32_9 by (simp add: relative_position_bucket_def Let_def)

section \<open>Properties of the attention module\<close>

lemma T5Attention_forward_assert:
  assumes "past_key_value_state = Some past" and "\<not> is_decoder m \<or> length past \<noteq> 2"
  shows "T5Attention_forward m input amask kv position_bias past_key_value_state head_mask
           query_length use_cache output_attentions = Inl AssertionError"
  using assms by (auto simp add: T5Attention_forward_def)

lemma T5Attention_forward_unfold:
  assumes "past_key_value_state = None \<or> (is_decoder m \<and> length (the past_key_value_state) = 2)"
  shows "T5Attention_forward m input amask kv position_bias past_key_value_state head_mask
           query_length use_cache output_attentions =
     (case attention_position_bias m amask position_bias past_key_value_state
             (attention_real_qlen input past_key_value_state query_length)
             (attention_klen input kv past_key_value_state query_length) of
        Inl e \<Rightarrow> Inl e
      | Inr pb \<Rightarrow> Inr (attention_apply m input kv past_key_value_state head_mask
                      use_cache output_attentions pb))"
  using assms by (auto simp add: T5Attention_forward_def Let_def)

lemma T5Attention_forward_Inr_D:
  assumes "T5Attention_forward m input amask kv position_bias past_key_value_state head_mask
           query_length use_cache output_attentions = Inr out"
  shows "past_key_value_state = None \<or> (is_decoder m \<and> length (the past_key_value_state) = 2)"
    and "\<exists>pb. attention_position_bias m amask position_bias past_key_value_state
             (attention_real_qlen input past_key_value_state query_length)
             (attention_klen input kv past_key_value_state query_length) = Inr pb
          \<and> out = attention_apply m input kv past_key_value_state head_mask
                      use_cache output_attentions pb"
  using assms by (auto simp add: T5Attention_forward_def Let_def split: if_splits sum.splits)

lemma cat_dim2_prefix:
  assumes "i < length (cat_dim2 a b)" "h < length (cat_dim2 a b ! i)"
  shows "prefix (a ! i ! h) (cat_dim2 a b ! i ! h)"
  using assms by (simp add: cat_dim2_def)

lemma att_present_apply:
  "att_present (attention_apply m input kv past head_mask use_cache output_attentions pb) =
     (if is_decoder m \<and> use_cache then Some (key_value_states m input kv past) else None)"
  by (simp add: attention_apply_def Let_def)

lemma att_position_bias_apply:
  "att_position_bias (attention_apply m input kv past head_mask use_cache output_attentions pb) =
     (if has_relative_attention_bias m then Some pb else None)"
  by (simp add: attention_apply_def Let_def)

lemma key_value_states_self:
  "key_value_states m input None (Some past) =
     (cat_dim2 (past ! 0) (shape m (Linear_forward (k_weight m) input)),
      cat_dim2 (past ! 1) (shape m (Linear_forward (v_weight m) input)))"
  by (simp add: key_value_states_def Let_def)

lemma key_value_states_cross:
  "key_value_states m input (Some src) (Some past) = (past ! 0, past ! 1)"
  by (simp add: key_value_states_def)

lemma cross_attention_ignores_kv:
  assumes ok: "T5Attention_forward m input amask (Some src) position_bias (Some past) head_mask
         query_length use_cache output_attentions = Inr out"
    and sz: "size1 src' = size1 src"
  shows "T5Attention_forward (m\<lparr>k_weight := k_weight m', v_weight := v_weight m'\<rparr>)
            input amask (Some src') position_bias (Some past) head_mask
            query_length use_cache output_attentions = Inr out"
proof -
  let ?m = "m\<lparr>k_weight := k_weight m', v_weight := v_weight m'\<rparr>"
  from T5Attention_forward_Inr_D(1)[OF ok]
  have dec: "is_decoder m" and len: "length past = 2" by simp_all
  from T5Attention_forward_Inr_D(2)[OF ok] obtain pb where
    pb: "attention_position_bias m amask position_bias (Some past)
             (attention_real_qlen input (Some past) query_length)
             (attention_klen input (Some src) (Some past) query_length) = Inr pb"
    and out: "out = attention_apply m input (Some src) (Some past) head_mask use_cache output_attentions pb"
    by blast
  have cb: "compute_bias ?m = compute_bias m"
    by (intro ext) (simp add: compute_bias_def cong: sum.case_cong)
  have kl: "attention_klen input (Some src') (Some past) query_length
          = attention_klen input (Some src) (Some past) query_length"
    using sz by (simp add: attention_klen_def)
  have "attention_position_bias ?m = attention_position_bias m"
    by (intro ext) (simp add: attention_position_bias_def cb cong: option.case_cong)
  then have apb: "attention_position_bias ?m amask position_bias (Some past)
           (attention_real_qlen input (Some past) query_length)
           (attention_klen input (Some src') (Some past) query_length) = Inr pb"
    using pb unfolding kl by simp
  have sh: "shape ?m = shape m" by (intro ext) (simp add: shape_def)
  have us: "unshape ?m = unshape m" by (intro ext) (simp add: unshape_def)
  have ap: "attention_apply ?m input (Some src') (Some past) head_mask use_cache output_attentions pb
      = out"
    unfolding out
    by (simp add: attention_apply_def Let_def key_value_states_cross sh us)
  show ?thesis
    using dec len apb ap by (simp add: T5Attention_forward_unfold)
qed

lemma cache_use_present:
  assumes ok: "T5Attention_forward m input amask kv position_bias (Some past) head_mask
         query_length use_cache output_attentions = Inr out"
  shows "att_present out =
           (if use_cache then Some (key_value_states m input kv (Some past)) else None)"
proof -
  from T5Attention_forward_Inr_D(1)[OF ok] have dec: "is_decoder m" by simp
  from T5Attention_forward_Inr_D(2)[OF ok] obtain pb where
    out: "out = attention_apply m input kv (Some past) head_mask use_cache output_attentions pb"
    by blast
  show ?thesis unfolding out att_present_apply using dec by simp
qed

text \<open>
  C5. When \<^verbatim>\<open>forward\<close> receives a cache, a module that is not a decoder fails with the
  assertion; when the call succeeds the module is a decoder and the cache is a pair. In
  self-attention the keys and values are the cached tensors with the new projections
  appended along the sequence axis, so every cached row is a prefix of the new one; in
  cross-attention they are the cached pair itself, and the result depends neither on the
  content of \<^verbatim>\<open>kv\<close> nor on the key and value projections. With \<^verbatim>\<open>use_cache\<close> the
  returned present pair is exactly these keys and values.
\<close>

theorem T5Attention_cache_use:
  "(\<not> is_decoder m \<longrightarrow>
      T5Attention_forward m input amask kv position_bias (Some past) head_mask
         query_length use_cache output_attentions = Inl AssertionError)
   \<and> (T5Attention_forward m input amask kv position_bias (Some past) head_mask
         query_length use_cache output_attentions = Inr out \<longrightarrow>
       is_decoder m \<and> length past = 2
       \<and> att_present out =
           (if use_cache then Some (key_value_states m input kv (Some past)) else None)
       \<and> (kv = None \<longrightarrow>
            key_value_states m input kv (Some past) =
              (cat_dim2 (past ! 0) (shape m (Linear_forward (k_weight m) input)),
               cat_dim2 (past ! 1) (shape m (Linear_forward (v_weight m) input)))
            \<and> (\<forall>i<length (fst (key_value_states m input kv (Some past))).
                 \<forall>h<length (fst (key_value_states m input kv (Some past)) ! i).
                   prefix (past ! 0 ! i ! h) (fst (key_value_states m input kv (Some past)) ! i ! h))
            \<and> (\<forall>i<length (snd (key_value_states m input kv (Some past))).
                 \<forall>h<length (snd (key_value_states m input kv (Some past)) ! i).
                   prefix (past ! 1 ! i ! h) (snd (key_value_states m input kv (Some past)) ! i ! h)))
       \<and> (\<forall>src. kv = Some src \<longrightarrow>
            key_value_states m input kv (Some past) = (past ! 0, past ! 1)
            \<and> (\<forall>src' m'. size1 src' = size1 src \<longrightarrow>
                 T5Attention_forward (m\<lparr>k_weight := k_weight m', v_weight := v_weight m'\<rparr>)
                    input amask (Some src') position_bias (Some past) head_mask
                    query_length use_cache output_attentions
                 = Inr out)))"
  apply (intro conjI impI allI)
  subgoal by (simp add: T5Attention_forward_assert)
  subgoal using T5Attention_forward_Inr_D(1) by fastforce
  subgoal using T5Attention_forward_Inr_D(1) by fastforce
  subgoal by (rule cache_use_present)
  subgoal by (simp add: key_value_states_self)
  subgoal by (simp add: key_value_states_self cat_dim2_prefix)
  subgoal by (simp add: key_value_states_self cat_dim2_prefix)
  subgoal by (simp add: key_value_states_cross)
  subgoal for src src' m' using cross_attention_ignores_kv[of m input amask src position_bias past head_mask query_length use_cache output_attentions out src' m'] by simp
  done

theorem T5Attention_cache_use_witness:
  "is_decoder example_decoder_attention
   \<and> att_present (attention_apply example_decoder_attention [[[1]]] None
          (Some [[[[[2]]]], [[[[3]]]]]) None True False [[[[0, 0]]]])
       = Some ([[[[2], [1]]]], [[[[3], [1]]]])"
proof -
  have ok: "T5Attention_forward example_decoder_attention [[[1]]] None None (Some [[[[0, 0]]]])
          (Some [[[[[2]]]], [[[[3]]]]]) None None True False
        = Inr (attention_apply example_decoder_attention [[[1]]] None
          (Some [[[[[2]]]], [[[[3]]]]]) None True False [[[[0, 0]]]])"
    by (simp add: T5Attention_forward_def attention_position_bias_def
          example_decoder_attention_def)
  have kv: "key_value_states example_decoder_attention [[[1]]] None (Some [[[[[2]]]], [[[[3]]]]])
      = ([[[[2], [1]]]], [[[[3], [1]]]])"
    by (simp add: key_value_states_def example_decoder_attention_def cat_dim2_def shape_def
          Linear_forward_def Linear_forward_vec_def dot_def)
  show ?thesis
    using T5Attention_cache_use [of example_decoder_attention "[[[1]]]" None None
        "Some [[[[0, 0]]]]" "[[[[[2]]]], [[[[3]]]]]" None None True False
        "attention_apply example_decoder_attention [[[1]]] None
          (Some [[[[[2]]]], [[[[3]]]]]) None True False [[[[0, 0]]]]"] ok kv
    by simp
qed

lemma attention_position_bias_None:
  "attention_position_bias m amask None past real_qlen klen =
     (if \<not> has_relative_attention_bias m then Inl ValueError
      else case compute_bias m real_qlen klen of
             Inl e \<Rightarrow> Inl e
           | Inr pb \<Rightarrow> Inr (case amask of
                 None \<Rightarrow> (if past \<noteq> None then last_query_row pb else pb)
               | Some mk \<Rightarrow> badd4 (if past \<noteq> None then last_query_row pb else pb) mk))"
  by (auto simp add: attention_position_bias_def Let_def split: sum.split)

lemma attention_position_bias_Some:
  "attention_position_bias m amask (Some pb) past real_qlen klen = Inr pb"
  by (simp add: attention_position_bias_def)

lemma example_encoder_flags:
  "has_relative_attention_bias example_encoder_attention"
  "\<not> is_decoder example_encoder_attention"
  by (simp_all add: example_encoder_attention_def)

lemma example_compute_bias:
  "compute_bias example_encoder_attention (Suc 0) (Suc 0) = Inr [[[[5]]]]"
  by (simp add: compute_bias_def relative_position_bucket_tensor_def
        relative_position_bucket_def embedding_lookup_def example_encoder_attention_def Let_def)

section \<open>Properties of T5Block\<close>

text \<open>
  C6. When a block receives a cache that it may not have (the block is not a decoder) or
  whose length is not the expected one (two without encoder hidden states, four with
  them), \<^verbatim>\<open>forward\<close> fails with the assertion, whatever its three sub-layers are: the
  failure precedes every sub-layer. When the call succeeds, the block is a decoder, the
  cache has the expected length, and the result is the one of the sub-layers on the first
  two and the remaining members of the cache. \<^verbatim>\<open>forward\<close> assigns no attribute of the
  module, so the model returns no module and the block is the same after every call.
\<close>

theorem T5Block_cache_arity:
  "(\<not> block_is_decoder m \<or> length past \<noteq> (if encoder_hidden_states = None then 2 else 4) \<longrightarrow>
      (\<forall>l0 l1 ll.
         T5Block_forward (m\<lparr>layer_0 := l0, layer_1 := l1, layer_last := ll\<rparr>) hidden_states
           attention_mask position_bias encoder_hidden_states encoder_attention_mask
           encoder_decoder_position_bias head_mask (Some past) use_cache output_attentions
         = Inl AssertionError))
   \<and> (T5Block_forward m hidden_states attention_mask position_bias encoder_hidden_states
         encoder_attention_mask encoder_decoder_position_bias head_mask (Some past)
         use_cache output_attentions = Inr out \<longrightarrow>
       block_is_decoder m
       \<and> length past = (if encoder_hidden_states = None then 2 else 4)
       \<and> T5Block_sublayers m hidden_states attention_mask position_bias encoder_hidden_states
            encoder_attention_mask encoder_decoder_position_bias head_mask
            (Some (take 2 past)) (Some (drop 2 past)) use_cache output_attentions = Inr out)"
  by (auto simp add: T5Block_forward_def Let_def split: if_splits)

lemma example_block_ok:
  "\<exists>out. T5Block_forward example_decoder_block [[[1]]] None (Some [[[[0, 0]]]]) None None None None
      (Some [[[[[2]]]], [[[[3]]]]]) True False = Inr out"
  by (simp add: T5Block_forward_def T5Block_sublayers_def T5LayerSelfAttention_forward_def
        T5Attention_forward_def attention_position_bias_def example_decoder_block_def
        example_decoder_attention_def Let_def)

theorem T5Block_cache_arity_witness:
  "T5Block_forward example_decoder_block [[[1]]] None (Some [[[[0, 0]]]]) None None None None
      (Some [[[[[2]]]], [[[[3]]]], [[[[4]]]]]) True False = Inl AssertionError
   \<and> (\<exists>out. T5Block_sublayers example_decoder_block [[[1]]] None (Some [[[[0, 0]]]]) None None None
         None (Some [[[[[2]]]], [[[[3]]]]]) (Some []) True False = Inr out)"
proof -
  obtain out where ok: "T5Block_forward example_decoder_block [[[1]]] None (Some [[[[0, 0]]]])
      None None None None (Some [[[[[2]]]], [[[[3]]]]]) True False = Inr out"
    using example_block_ok by blast
  have a: "T5Block_forward example_decoder_block [[[1]]] None (Some [[[[0, 0]]]]) None None None None
      (Some [[[[[2]]]], [[[[3]]]], [[[[4]]]]]) True False = Inl AssertionError"
    using T5Block_cache_arity [of example_decoder_block "[[[[[2]]]], [[[[3]]]], [[[[4]]]]]" None
        "[[[1]]]" None "Some [[[[0, 0]]]]" None None None True False]
    by (simp add: example_decoder_block_def)
  have b: "T5Block_sublayers example_decoder_block [[[1]]] None (Some [[[[0, 0]]]]) None None None
         None (Some [[[[[2]]]], [[[[3]]]]]) (Some []) True False = Inr out"
    using T5Block_cache_arity [of example_decoder_block "[[[[[2]]]], [[[[3]]]]]" None
        "[[[1]]]" None "Some [[[[0, 0]]]]" None None None True False out] ok
    by simp
  show ?thesis using a b by blast
qed

section \<open>Properties of the position bias\<close>

lemma T5Attention_forward_mask_irrelevant:
  "T5Attention_forward m input amask kv (Some pb) past head_mask query_length use_cache
      output_attentions
   = T5Attention_forward m input amask' kv (Some pb) past head_mask query_length use_cache
      output_attentions"
  by (simp add: T5Attention_forward_def attention_position_bias_Some)

lemma T5Block_sublayers_mask_irrelevant:
  assumes "encoder_hidden_states \<noteq> None \<longrightarrow> encoder_decoder_position_bias \<noteq> None"
  shows "T5Block_sublayers m hidden_states attention_mask (Some pb) encoder_hidden_states
           encoder_attention_mask encoder_decoder_position_bias head_mask self_past cross_past
           use_cache output_attentions
       = T5Block_sublayers m hidden_states attention_mask' (Some pb) encoder_hidden_states
           encoder_attention_mask' encoder_decoder_position_bias head_mask self_past cross_past
           use_cache output_attentions"
proof -
  have self: "T5LayerSelfAttention_forward l h attention_mask (Some pb) hm p uc oa
      = T5LayerSelfAttention_forward l h attention_mask' (Some pb) hm p uc oa" for l h hm p uc oa
    unfolding T5LayerSelfAttention_forward_def
    using T5Attention_forward_mask_irrelevant[of _ _ attention_mask None pb _ _ None _ _ attention_mask']
    by simp
  show ?thesis
  proof (cases "encoder_hidden_states \<noteq> None")
    case False
    then show ?thesis unfolding T5Block_sublayers_def self
      by (simp add: Let_def cong: sum.case_cong)
  next
    case True
    with assms obtain eb where eb: "encoder_decoder_position_bias = Some eb" by auto
    have cross: "T5LayerCrossAttention_forward l h kv encoder_attention_mask (Some eb) hm p uc ql oa
      = T5LayerCrossAttention_forward l h kv encoder_attention_mask' (Some eb) hm p uc ql oa"
      for l h kv hm p uc ql oa
      unfolding T5LayerCrossAttention_forward_def
      using T5Attention_forward_mask_irrelevant[of _ _ encoder_attention_mask "Some kv" eb _ _ ql _ _
          encoder_attention_mask']
      by simp
    show ?thesis unfolding T5Block_sublayers_def self eb cross ..
  qed
qed

lemma T5Block_forward_mask_irrelevant:
  assumes "encoder_hidden_states \<noteq> None \<longrightarrow> encoder_decoder_position_bias \<noteq> None"
  shows "T5Block_forward m hidden_states attention_mask (Some pb) encoder_hidden_states
           encoder_attention_mask encoder_decoder_position_bias head_mask past
           use_cache output_attentions
       = T5Block_forward m hidden_states attention_mask' (Some pb) encoder_hidden_states
           encoder_attention_mask' encoder_decoder_position_bias head_mask past
           use_cache output_attentions"
proof -
  note sub = T5Block_sublayers_mask_irrelevant[OF assms, of m hidden_states attention_mask pb
      encoder_attention_mask head_mask _ _ use_cache output_attentions attention_mask'
      encoder_attention_mask']
  show ?thesis unfolding T5Block_forward_def sub ..
qed

lemma T5Stack_later_layers_mask_irrelevant:
  assumes "0 < i" and "st_position_bias st \<noteq> None"
    and "encoder_hidden_states \<noteq> None \<longrightarrow> st_encoder_decoder_position_bias st \<noteq> None"
  shows "T5Stack_layers dec attention_mask encoder_hidden_states encoder_attention_mask head_mask
           use_cache output_attentions output_hidden_states i blocks st
       = T5Stack_layers dec attention_mask' encoder_hidden_states encoder_attention_mask' head_mask
           use_cache output_attentions output_hidden_states i blocks st"
  using assms
proof (induction blocks arbitrary: i st)
  case Nil
  show ?case by simp
next
  case (Cons bp rest)
  obtain layer_module past where bp: "bp = (layer_module, past)" by (cases bp)
  let ?st1 = "(if output_hidden_states
                 then st \<lparr> st_all_hidden_states :=
                             st_all_hidden_states st @ [st_hidden_states st] \<rparr>
                 else st)"
  from Cons.prems obtain pb where pb: "st_position_bias ?st1 = Some pb" by auto
  have eb: "encoder_hidden_states \<noteq> None \<longrightarrow> st_encoder_decoder_position_bias ?st1 \<noteq> None"
    using Cons.prems by simp
  have blk: "T5Block_forward layer_module (st_hidden_states ?st1) attention_mask
                  (st_position_bias ?st1) encoder_hidden_states encoder_attention_mask
                  (st_encoder_decoder_position_bias ?st1) (head_mask ! i) past
                  use_cache output_attentions
      = T5Block_forward layer_module (st_hidden_states ?st1) attention_mask'
                  (st_position_bias ?st1) encoder_hidden_states encoder_attention_mask'
                  (st_encoder_decoder_position_bias ?st1) (head_mask ! i) past
                  use_cache output_attentions"
    unfolding pb by (rule T5Block_forward_mask_irrelevant[OF eb])
  have i0: "i \<noteq> 0" using Cons.prems by simp
  have step: "T5Stack_layers dec attention_mask encoder_hidden_states encoder_attention_mask head_mask
         use_cache output_attentions output_hidden_states (Suc i) rest st'
       = T5Stack_layers dec attention_mask' encoder_hidden_states encoder_attention_mask' head_mask
         use_cache output_attentions output_hidden_states (Suc i) rest st'"
    if "st_position_bias st' \<noteq> None"
      "encoder_hidden_states \<noteq> None \<longrightarrow> st_encoder_decoder_position_bias st' \<noteq> None" for st'
    using Cons.IH[of "Suc i" st'] that by simp
  show ?case
    unfolding bp T5Stack_layers.simps Let_def blk
    using i0 pb eb
    by (simp add: step cong: sum.case_cong)
qed

lemma drop_to_last: "rows \<noteq> [] \<Longrightarrow> drop (length rows - Suc 0) rows = [last rows]"
proof -
  assume ne: "rows \<noteq> []"
  then have "rows = butlast rows @ [last rows]" by simp
  then have "drop (length (butlast rows)) rows = drop (length (butlast rows)) (butlast rows @ [last rows])"
    by simp
  then show ?thesis by simp
qed

lemma last_query_row_rows:
  "length (last_query_row x) = length x"
  "b < length x \<Longrightarrow> length (last_query_row x ! b) = length (x ! b)"
  "b < length x \<Longrightarrow> h < length (x ! b) \<Longrightarrow>
     last_query_row x ! b ! h = (if x ! b ! h = [] then [] else [last (x ! b ! h)])"
  by (simp_all add: last_query_row_def drop_to_last)

lemma example_decoder_bias_flags:
  "has_relative_attention_bias example_decoder_bias_attention"
  "is_decoder example_decoder_bias_attention"
  by (simp_all add: example_decoder_bias_attention_def)

lemma example_decoder_compute_bias:
  "compute_bias example_decoder_bias_attention (Suc (Suc 0)) (Suc (Suc 0)) = Inr [[[[5, 5], [6, 5]]]]"
  by (simp add: compute_bias_def relative_position_bucket_tensor_def
        relative_position_bucket_def embedding_lookup_def example_decoder_bias_attention_def
        Let_def upt_rec)

lemma example_cached_owner_call:
  "T5Attention_forward example_decoder_bias_attention [[[2]]] None None None
       (Some [[[[[1]]]], [[[[1]]]]]) None None True False
   = Inr (attention_apply example_decoder_bias_attention [[[2]]] None
       (Some [[[[[1]]]], [[[[1]]]]]) None True False [[[[6, 5]]]])"
proof -
  have len: "attention_real_qlen [[[2]]] (Some [[[[[1]]]], [[[[1]]]]]) None = Suc (Suc 0)"
    "attention_klen [[[2]]] None (Some [[[[[1]]]], [[[[1]]]]]) None = Suc (Suc 0)"
    by (simp_all add: attention_real_qlen_def attention_klen_def size1_def shape2_def)
  have sl: "last_query_row [[[[5, 5], [6, 5 :: real]]]] = [[[[6, 5]]]]"
    by (simp add: last_query_row_def)
  show ?thesis
    by (simp add: T5Attention_forward_def attention_position_bias_None
          example_decoder_compute_bias example_decoder_bias_flags len sl)
qed

text \<open>
  C7. Without a supplied position bias, a module that owns no bias table fails (with the
  ValueError, unless an assertion on the cache fails first). A module that owns the table
  computes the bias from \<^verbatim>\<open>real_qlen\<close> and \<^verbatim>\<open>klen\<close>, keeps only the newest query row
  under a cache, adds the mask, uses the sum for the scores and returns it. With a supplied
  bias the scores get exactly that bias: it is returned unchanged by an owner, and the
  result is the same for every mask. In the loop of the stack only the layer of index 0
  computes the biases; from index 1 on the layers receive the stored biases, and the
  outcome of the loop does not depend on the masks any more: the mask enters once,
  through the bias of the owning layer. The slice to the newest query row keeps, for every
  batch entry and head, exactly the last row of the bias.
\<close>

theorem T5Attention_bias_ownership:
  "(\<not> has_relative_attention_bias m \<longrightarrow>
      T5Attention_forward m input amask kv None past head_mask query_length use_cache
         output_attentions
      = Inl (if past \<noteq> None \<and> (\<not> is_decoder m \<or> length (the past) \<noteq> 2)
             then AssertionError else ValueError))
   \<and> (has_relative_attention_bias m \<and>
       T5Attention_forward m input amask kv None past head_mask query_length use_cache
         output_attentions = Inr out \<longrightarrow>
       (\<exists>pb. compute_bias m (attention_real_qlen input past query_length)
                 (attention_klen input kv past query_length) = Inr pb
          \<and> att_position_bias out =
               Some (case amask of
                       None \<Rightarrow> (if past \<noteq> None then last_query_row pb else pb)
                     | Some mk \<Rightarrow> badd4 (if past \<noteq> None then last_query_row pb else pb) mk)
          \<and> out = attention_apply m input kv past head_mask use_cache output_attentions
                (case amask of
                       None \<Rightarrow> (if past \<noteq> None then last_query_row pb else pb)
                     | Some mk \<Rightarrow> badd4 (if past \<noteq> None then last_query_row pb else pb) mk)))
   \<and> (T5Attention_forward m input amask kv (Some pb0) past head_mask query_length use_cache
         output_attentions = Inr out \<longrightarrow>
       out = attention_apply m input kv past head_mask use_cache output_attentions pb0
       \<and> att_position_bias out = (if has_relative_attention_bias m then Some pb0 else None)
       \<and> (\<forall>amask'. T5Attention_forward m input amask' kv (Some pb0) past head_mask
              query_length use_cache output_attentions = Inr out))
   \<and> (0 < i \<and> st_position_bias st \<noteq> None
       \<and> (encoder_hidden_states \<noteq> None \<longrightarrow> st_encoder_decoder_position_bias st \<noteq> None) \<longrightarrow>
       (\<forall>attention_mask' encoder_attention_mask'.
          T5Stack_layers stack_is_decoder attention_mask encoder_hidden_states
            encoder_attention_mask head_masks use_cache' output_attentions'
            output_hidden_states i blocks st
          = T5Stack_layers stack_is_decoder attention_mask' encoder_hidden_states
            encoder_attention_mask' head_masks use_cache' output_attentions'
            output_hidden_states i blocks st))
   \<and> (b < length x \<and> h < length (x ! b) \<longrightarrow>
       length (last_query_row x) = length x
       \<and> length (last_query_row x ! b) = length (x ! b)
       \<and> last_query_row x ! b ! h = (if x ! b ! h = [] then [] else [last (x ! b ! h)]))"
  apply (intro conjI impI allI)
  subgoal by (auto simp add: T5Attention_forward_def attention_position_bias_None)
  subgoal
    using T5Attention_forward_Inr_D(2)[of m input amask kv None past head_mask query_length
        use_cache output_attentions out]
    by (auto simp add: attention_position_bias_None att_position_bias_apply split: sum.splits)
  subgoal
    using T5Attention_forward_Inr_D(2)[of m input amask kv "Some pb0" past head_mask query_length
        use_cache output_attentions out]
    by (simp add: attention_position_bias_Some)
  subgoal
    using T5Attention_forward_Inr_D(2)[of m input amask kv "Some pb0" past head_mask query_length
        use_cache output_attentions out]
    by (auto simp add: attention_position_bias_Some att_position_bias_apply)
  subgoal for amask'
    using T5Attention_forward_Inr_D[of m input amask kv "Some pb0" past head_mask query_length
        use_cache output_attentions out]
    by (simp add: T5Attention_forward_unfold attention_position_bias_Some)
  subgoal for attention_mask' encoder_attention_mask'
    by (rule T5Stack_later_layers_mask_irrelevant) simp_all
  subgoal by (simp add: last_query_row_rows)
  subgoal by (simp add: last_query_row_rows)
  subgoal by (simp add: last_query_row_rows)
  done

theorem T5Attention_bias_ownership_witness:
  "att_position_bias (attention_apply example_encoder_attention [[[1]]] None None None
       False False [[[[4]]]]) = Some [[[[4]]]]
   \<and> T5Attention_forward example_encoder_attention [[[1]]] None None (Some [[[[4]]]]) None None
       None False False
     = T5Attention_forward example_encoder_attention [[[1]]] (Some [[[[- 1]]]]) None None None None
       None False False
   \<and> T5Stack_layers True (Some [[[[- 1]]]]) None None [None, None] True False False 1
        [(example_decoder_block, None)]
        \<lparr> st_hidden_states = [[[1]]], st_position_bias = Some [[[[4]]]],
          st_encoder_decoder_position_bias = None, st_present_key_value_states = [None],
          st_all_hidden_states = [], st_all_attentions = [] \<rparr>
     = T5Stack_layers True None None None [None, None] True False False 1
        [(example_decoder_block, None)]
        \<lparr> st_hidden_states = [[[1]]], st_position_bias = Some [[[[4]]]],
          st_encoder_decoder_position_bias = None, st_present_key_value_states = [None],
          st_all_hidden_states = [], st_all_attentions = [] \<rparr>
   \<and> T5Attention_forward example_decoder_bias_attention [[[2]]] None None None
       (Some [[[[[1]]]], [[[[1]]]]]) None None True False
     = Inr (attention_apply example_decoder_bias_attention [[[2]]] None
       (Some [[[[[1]]]], [[[[1]]]]]) None True False [[[[6, 5]]]])
   \<and> att_position_bias (attention_apply example_decoder_bias_attention [[[2]]] None
       (Some [[[[[1]]]], [[[[1]]]]]) None True False [[[[6, 5]]]]) = Some [[[[6, 5]]]]
   \<and> last_query_row [[[[5, 5], [6, 5]]]] ! 0 ! 0 = [[6, 5]]"
proof -
  have len: "attention_real_qlen [[[1]]] None None = Suc 0"
    "attention_klen [[[1]]] None None None = Suc 0"
    by (simp_all add: attention_real_qlen_def attention_klen_def size1_def)
  have add: "badd4 [[[[5]]]] [[[[- 1]]]] = [[[[4]]]]"
    by (simp add: badd4_def bzip_def)
  have ok: "T5Attention_forward example_encoder_attention [[[1]]] (Some [[[[- 1]]]]) None None None
       None None False False
      = Inr (attention_apply example_encoder_attention [[[1]]] None None None
       False False [[[[4]]]])"
    by (simp add: T5Attention_forward_def attention_position_bias_None example_compute_bias
          example_encoder_flags len add)
  have ok3: "T5Attention_forward example_encoder_attention [[[1]]] (Some [[[[- 1]]]]) None
       (Some [[[[4]]]]) None None None False False
      = Inr (attention_apply example_encoder_attention [[[1]]] None None None
       False False [[[[4]]]])"
    by (simp add: T5Attention_forward_def attention_position_bias_Some)
  have w1: "att_position_bias (attention_apply example_encoder_attention [[[1]]] None None None
       False False [[[[4]]]]) = Some [[[[4]]]]
   \<and> T5Attention_forward example_encoder_attention [[[1]]] None None (Some [[[[4]]]]) None None
       None False False
     = T5Attention_forward example_encoder_attention [[[1]]] (Some [[[[- 1]]]]) None None None None
       None False False
   \<and> T5Stack_layers True (Some [[[[- 1]]]]) None None [None, None] True False False 1
        [(example_decoder_block, None)]
        \<lparr> st_hidden_states = [[[1]]], st_position_bias = Some [[[[4]]]],
          st_encoder_decoder_position_bias = None, st_present_key_value_states = [None],
          st_all_hidden_states = [], st_all_attentions = [] \<rparr>
     = T5Stack_layers True None None None [None, None] True False False 1
        [(example_decoder_block, None)]
        \<lparr> st_hidden_states = [[[1]]], st_position_bias = Some [[[[4]]]],
          st_encoder_decoder_position_bias = None, st_present_key_value_states = [None],
          st_all_hidden_states = [], st_all_attentions = [] \<rparr>"
    using T5Attention_bias_ownership [where m = example_encoder_attention and input = "[[[1]]]"
        and amask = "Some [[[[- 1]]]]" and kv = None and past = None and head_mask = None
        and query_length = None and use_cache = False and output_attentions = False
        and out = "attention_apply example_encoder_attention [[[1]]] None None None False False
                     [[[[4]]]]"
        and ?pb0.0 = "[[[[4]]]]" and i = 1
        and st = "\<lparr> st_hidden_states = [[[1]]], st_position_bias = Some [[[[4]]]],
          st_encoder_decoder_position_bias = None, st_present_key_value_states = [None],
          st_all_hidden_states = [], st_all_attentions = [] \<rparr>"
        and encoder_hidden_states = None and stack_is_decoder = True
        and attention_mask = "Some [[[[- 1]]]]" and encoder_attention_mask = None
        and head_masks = "[None, None]" and use_cache' = True and output_attentions' = False
        and output_hidden_states = False and blocks = "[(example_decoder_block, None)]"
        and x = "[]" and b = 0 and h = 0]
      ok ok3
    by (simp add: example_encoder_flags example_compute_bias len add)
  have len2: "attention_real_qlen [[[2]]] (Some [[[[[1]]]], [[[[1]]]]]) None = Suc (Suc 0)"
    "attention_klen [[[2]]] None (Some [[[[[1]]]], [[[[1]]]]]) None = Suc (Suc 0)"
    by (simp_all add: attention_real_qlen_def attention_klen_def size1_def shape2_def)
  have sl: "last_query_row [[[[5, 5], [6, 5 :: real]]]] = [[[[6, 5]]]]"
    by (simp add: last_query_row_def)
  have w2: "att_position_bias (attention_apply example_decoder_bias_attention [[[2]]] None
       (Some [[[[[1]]]], [[[[1]]]]]) None True False [[[[6, 5]]]]) = Some [[[[6, 5]]]]
     \<and> last_query_row [[[[5, 5], [6, 5]]]] ! 0 ! 0 = [[6, 5]]"
    using T5Attention_bias_ownership [where m = example_decoder_bias_attention
        and input = "[[[2]]]" and amask = None and kv = None
        and past = "Some [[[[[1]]]], [[[[1]]]]]" and head_mask = None
        and query_length = None and use_cache = True and output_attentions = False
        and out = "attention_apply example_decoder_bias_attention [[[2]]] None
                     (Some [[[[[1]]]], [[[[1]]]]]) None True False [[[[6, 5]]]]"
        and ?pb0.0 = "[]" and i = 0 and encoder_hidden_states = None
        and x = "[[[[5, 5], [6, 5]]]]" and b = 0 and h = 0]
      example_cached_owner_call
    by (simp add: example_decoder_bias_flags example_decoder_compute_bias len2 sl)
  show ?thesis using w1 w2 example_cached_owner_call by simp
qed

section \<open>Properties of head pruning\<close>

lemma card_below_split:
  fixes P :: "int set"
  assumes fin: "finite P" and lt: "h1 < h2" and notin: "h1 \<notin> P"
  shows "card {p \<in> P. p < h2} \<le> card {p \<in> P. p < h1} + nat (h2 - h1 - 1)"
proof -
  have sub: "{p \<in> P. p < h2} \<subseteq> {p \<in> P. p < h1} \<union> {h1<..<h2}"
  proof
    fix x assume a: "x \<in> {p \<in> P. p < h2}"
    then have "x \<noteq> h1" using notin by blast
    then show "x \<in> {p \<in> P. p < h1} \<union> {h1<..<h2}" using a by auto
  qed
  have "card {p \<in> P. p < h2} \<le> card ({p \<in> P. p < h1} \<union> {h1<..<h2})"
    using fin by (intro card_mono sub) simp
  also have "\<dots> \<le> card {p \<in> P. p < h1} + card {h1<..<h2}"
    by (rule card_Un_le)
  finally show ?thesis by simp
qed

lemma shift_strict_mono:
  fixes P :: "int set"
  assumes fin: "finite P" and lt: "h1 < h2" and notin: "h1 \<notin> P"
  shows "h1 - int (card {p \<in> P. p < h1}) < h2 - int (card {p \<in> P. p < h2})"
  using card_below_split[OF fin lt notin] lt by linarith

lemma shift_inj_on:
  fixes P :: "int set"
  assumes fin: "finite P" and sub: "H \<inter> P = {}"
  shows "inj_on (\<lambda>h. h - int (card {p \<in> P. p < h})) H"
proof (rule inj_onI)
  fix x y assume x: "x \<in> H" and y: "y \<in> H"
    and eq: "x - int (card {p \<in> P. p < x}) = y - int (card {p \<in> P. p < y})"
  have nx: "x \<notin> P" and ny: "y \<notin> P" using x y sub by auto
  show "x = y"
  proof (rule ccontr)
    assume "x \<noteq> y"
    then consider "x < y" | "y < x" by linarith
    then show False
      using shift_strict_mono[OF fin _ nx, of y] shift_strict_mono[OF fin _ ny, of x] eq
      by cases simp_all
  qed
qed

lemma shift_lower:
  fixes P :: "int set"
  assumes fin: "finite P" and P0: "\<forall>p\<in>P. 0 \<le> p" and h: "0 \<le> h"
  shows "0 \<le> h - int (card {p \<in> P. p < h})"
proof -
  have "{p \<in> P. p < h} \<subseteq> {0..<h}" using P0 by auto
  then have "card {p \<in> P. p < h} \<le> card {0..<h}" by (intro card_mono) simp_all
  then show ?thesis using h by simp
qed

lemma shift_upper:
  fixes P :: "int set"
  assumes fin: "finite P" and PN: "\<forall>p\<in>P. p < N" and h: "h < N" and notin: "h \<notin> P"
  shows "h - int (card {p \<in> P. p < h}) < N - int (card P)"
proof -
  have split: "{p \<in> P. p < h} \<union> {p \<in> P. h < p} = P"
  proof (intro set_eqI iffI)
    fix x assume "x \<in> P"
    moreover from this have "x \<noteq> h" using notin by blast
    ultimately show "x \<in> {p \<in> P. p < h} \<union> {p \<in> P. h < p}" by auto
  qed auto
  have "card ({p \<in> P. p < h} \<union> {p \<in> P. h < p}) = card {p \<in> P. p < h} + card {p \<in> P. h < p}"
    using fin by (intro card_Un_disjoint) auto
  then have "card P = card {p \<in> P. p < h} + card {p \<in> P. h < p}"
    unfolding split .
  moreover have "{p \<in> P. h < p} \<subseteq> {h<..<N}" using PN by auto
  then have "card {p \<in> P. h < p} \<le> card {h<..<N}" by (intro card_mono) simp_all
  ultimately show ?thesis using h by simp
qed

lemma filter_div_length:
  "length (filter (\<lambda>i. Q (i div d)) [0..<k * d]) = d * length (filter Q [0..<k])"
proof (induction k)
  case 0
  show ?case by simp
next
  case (Suc k)
  have sk: "Suc k * d = k * d + d" by simp
  have "[0..<k * d + d] = [0..<k * d] @ [k * d..<k * d + d]"
    by (rule upt_add_eq_append) simp
  then have split: "[0..<Suc k * d] = [0..<k * d] @ [k * d..<k * d + d]"
    unfolding sk .
  have blk: "filter (\<lambda>i. Q (i div d)) [k * d..<k * d + d] = (if Q k then [k * d..<k * d + d] else [])"
  proof (cases "d = 0")
    case True then show ?thesis by simp
  next
    case False
    have "\<forall>i\<in>set [k * d..<k * d + d]. i div d = k"
    proof
      fix i assume "i \<in> set [k * d..<k * d + d]"
      then have "d * k \<le> i" "i < d * Suc k" by (simp_all add: mult.commute)
      then show "i div d = k"
        by (rule div_nat_eqI)
    qed
    then have "filter (\<lambda>i. Q (i div d)) [k * d..<k * d + d] = filter (\<lambda>i. Q k) [k * d..<k * d + d]"
      by (intro filter_cong) simp_all
    then show ?thesis by simp
  qed
  show ?case unfolding split by (simp add: blk Suc.IH)
qed

lemma length_filter_notin:
  fixes Z :: "int set"
  assumes fin: "finite Z" and sub: "\<forall>z\<in>Z. 0 \<le> z \<and> z < int k"
  shows "length (filter (\<lambda>j. int j \<notin> Z) [0..<k]) = k - card Z"
proof -
  have "length (filter (\<lambda>j. int j \<notin> Z) [0..<k]) = card ({j. int j \<notin> Z} \<inter> set [0..<k])"
    by (intro distinct_length_filter) simp
  also have "{j. int j \<notin> Z} \<inter> set [0..<k] = {j. j < k \<and> int j \<notin> Z}"
    by auto
  finally have "length (filter (\<lambda>j. int j \<notin> Z) [0..<k]) = card {j. j < k \<and> int j \<notin> Z}" .
  also have "{j. j < k \<and> int j \<notin> Z} = {0..<k} - nat ` Z"
  proof (intro set_eqI iffI)
    fix j assume "j \<in> {j. j < k \<and> int j \<notin> Z}"
    then show "j \<in> {0..<k} - nat ` Z" using sub by force
  next
    fix j assume "j \<in> {0..<k} - nat ` Z"
    then have jk: "j < k" and jz: "j \<notin> nat ` Z" by auto
    have "int j \<notin> Z"
    proof
      assume "int j \<in> Z"
      then have "nat (int j) \<in> nat ` Z" by (rule imageI)
      then show False using jz by simp
    qed
    then show "j \<in> {j. j < k \<and> int j \<notin> Z}" using jk by simp
  qed
  also have "card ({0..<k} - nat ` Z) = card {0..<k} - card (nat ` Z)"
    using sub fin by (intro card_Diff_subset) auto
  also have "card (nat ` Z) = card Z"
  proof (intro card_image inj_onI)
    fix x y assume x: "x \<in> Z" and y: "y \<in> Z" and e: "nat x = nat y"
    have "0 \<le> x" "0 \<le> y" using sub x y by auto
    then show "x = y" using e eq_nat_nat_iff by blast
  qed
  finally show ?thesis by simp
qed

lemma find_pruneable_valid:
  assumes n0: "0 \<le> n"
    and P: "fBall P (\<lambda>h. 0 \<le> h \<and> h < n + int (fcard P))"
    and valid: "list_all (\<lambda>h. 0 \<le> h \<and> h < n + int (fcard P)) heads"
  shows "\<exists>index. find_pruneable_heads_and_indices heads n d P
                  = Inr (fset_of_list heads |-| P, index)
           \<and> length index = (nat n - fcard (fset_of_list heads |-| P)) * d
           \<and> list_all (\<lambda>i. i < nat n * d) index
           \<and> int (fcard (fset_of_list heads |-| P)) \<le> n"
proof -
  define H where "H = fset_of_list heads |-| P"
  define shift where "shift = (\<lambda>head. head - int (fcard (ffilter (\<lambda>h. h < head) P)))"
  define N where "N = n + int (fcard P)"
  have shift_eq: "shift h = h - int (card {p \<in> fset P. p < h})" for h
  proof -
    have "fset (ffilter (\<lambda>x. x < h) P) = {p \<in> fset P. p < h}" by auto
    then show ?thesis by (simp add: shift_def fcard.rep_eq)
  qed
  have finP: "finite (fset P)" by simp
  have P0: "\<forall>p\<in>fset P. 0 \<le> p" and PN: "\<forall>p\<in>fset P. p < N"
    using P by (auto simp add: N_def)
  have Hval: "0 \<le> h \<and> h < N \<and> h \<notin> fset P" if "h \<in> fset H" for h
    using that valid by (auto simp add: H_def N_def list_all_iff fset_of_list.rep_eq)
  have range: "0 \<le> shift h \<and> shift h < n" if "h \<in> fset H" for h
  proof -
    have a: "0 \<le> h" "h < N" "h \<notin> fset P" using Hval[OF that] by simp_all
    have "shift h < N - int (card (fset P))"
      unfolding shift_eq by (rule shift_upper[OF finP PN a(2) a(3)])
    then have "shift h < n" by (simp add: N_def fcard.rep_eq)
    moreover have "0 \<le> shift h" unfolding shift_eq by (rule shift_lower[OF finP P0 a(1)])
    ultimately show ?thesis by simp
  qed
  have inj: "inj_on shift (fset H)"
  proof -
    have "fset H \<inter> fset P = {}" using Hval by auto
    from shift_inj_on[OF finP this] show ?thesis
      by (simp add: shift_eq[abs_def])
  qed
  have card_rows: "fcard (shift |`| H) = fcard H"
    using inj by (simp add: fcard.rep_eq card_image)
  have ball: "fBall (shift |`| H) (\<lambda>r. - n \<le> r \<and> r < n)"
    using range n0 by fastforce
  have zeroed: "(\<lambda>r. if r < 0 then r + n else r) |`| (shift |`| H) = shift |`| H"
  proof -
    have "(\<lambda>r. if r < 0 then r + n else r) |`| (shift |`| H) = (\<lambda>r. r) |`| (shift |`| H)"
    proof (intro fset.map_cong0)
      fix r assume "r \<in> fset (shift |`| H)"
      then obtain h where "h \<in> fset H" "r = shift h" by auto
      then have "0 \<le> r" using range by simp
      then show "(if r < 0 then r + n else r) = r" by simp
    qed
    then show ?thesis by simp
  qed
  define index where
    "index = filter (\<lambda>i. int (i div d) |\<notin>| shift |`| H) [0..<nat n * d]"
  have res: "find_pruneable_heads_and_indices heads n d P = Inr (H, index)"
    unfolding find_pruneable_heads_and_indices_def Let_def H_def[symmetric] shift_def[symmetric]
      zeroed index_def[symmetric]
    using n0 ball by simp
  have rows_sub: "\<forall>z\<in>fset (shift |`| H). 0 \<le> z \<and> z < int (nat n)"
    using range n0 by auto
  have "length index = d * length (filter (\<lambda>j. int j \<notin> fset (shift |`| H)) [0..<nat n])"
    unfolding index_def by (rule filter_div_length)
  also have "length (filter (\<lambda>j. int j \<notin> fset (shift |`| H)) [0..<nat n])
      = nat n - card (fset (shift |`| H))"
    by (rule length_filter_notin[OF _ rows_sub]) simp
  finally have len: "length index = (nat n - fcard H) * d"
    using card_rows by (simp add: fcard.rep_eq mult.commute)
  have bound: "list_all (\<lambda>i. i < nat n * d) index"
    by (simp add: index_def list_all_iff)
  have "card (fset (shift |`| H)) \<le> card {0..<n}"
    using range by (intro card_mono) auto
  then have le: "int (fcard H) \<le> n" using card_rows n0 by (simp add: fcard.rep_eq)
  show ?thesis using res len bound le unfolding H_def by blast
qed

lemma find_pruneable_nothing_new:
  assumes n0: "0 \<le> n" and sub: "fset_of_list heads |-| P = {||}"
  shows "find_pruneable_heads_and_indices heads n d P = Inr ({||}, [0..<nat n * d])"
  unfolding find_pruneable_heads_and_indices_def Let_def sub using n0 by simp

lemma fcard_union_diff:
  "fcard (P |\<union>| (A |-| P)) = fcard P + fcard (A |-| P)"
proof -
  have "card (fset P \<union> (fset A - fset P)) = card (fset P) + card (fset A - fset P)"
    by (intro card_Un_disjoint) auto
  then show ?thesis unfolding fcard.rep_eq by simp
qed

lemma funion_diff: "P |\<union>| (A |-| P) = P |\<union>| A"
  by auto

lemma prune_linear_layer_rows:
  assumes "list_all (\<lambda>i. i < length w) index"
  shows "prune_linear_layer w index 0 = Inr (map (\<lambda>i. w ! i) index)"
  using assms by (simp add: prune_linear_layer_def)

lemma prune_linear_layer_columns:
  assumes "list_all (\<lambda>row. list_all (\<lambda>i. i < length row) index) w"
  shows "prune_linear_layer w index (Suc 0) = Inr (map (\<lambda>row. map (\<lambda>i. row ! i) index) w)"
  using assms by (simp add: prune_linear_layer_def)

lemma select_all_rows: "length w = k \<Longrightarrow> map (\<lambda>i. w ! i) [0..<k] = w"
  by (auto intro: map_nth)

lemma select_all_columns:
  assumes "list_all (\<lambda>row. length row = k) w"
  shows "map (\<lambda>row. map (\<lambda>i. row ! i) [0..<k]) w = w"
  using assms by (induction w) (simp_all add: select_all_rows)

lemma prune_heads_nothing_new:
  assumes wf: "attention_wf m"
    and sub: "fset_of_list heads |-| pruned_heads m = {||}"
    and inner: "inner_dim m = int (d_kv m) * n_heads m"
  shows "prune_heads m heads = Inr m"
proof (cases "length heads = 0")
  case True
  then show ?thesis by (simp add: prune_heads_def)
next
  case False
  let ?k = "nat (n_heads m) * d_kv m"
  have n0: "0 \<le> n_heads m" using wf by (simp add: attention_wf_def)
  have fp: "find_pruneable_heads_and_indices heads (n_heads m) (d_kv m) (pruned_heads m)
      = Inr ({||}, [0..<?k])"
    by (rule find_pruneable_nothing_new[OF n0 sub])
  have lq: "length (q_weight m) = ?k" and lk: "length (k_weight m) = ?k"
    and lv: "length (v_weight m) = ?k"
    and lo: "list_all (\<lambda>row. length row = ?k) (o_weight m)"
    using wf by (simp_all add: attention_wf_def)
  have pq: "prune_linear_layer (q_weight m) [0..<?k] 0 = Inr (q_weight m)"
    using lq by (simp add: prune_linear_layer_rows list_all_iff select_all_rows)
  have pk: "prune_linear_layer (k_weight m) [0..<?k] 0 = Inr (k_weight m)"
    using lk by (simp add: prune_linear_layer_rows list_all_iff select_all_rows)
  have pv: "prune_linear_layer (v_weight m) [0..<?k] 0 = Inr (v_weight m)"
    using lv by (simp add: prune_linear_layer_rows list_all_iff select_all_rows)
  have "list_all (\<lambda>row. list_all (\<lambda>i. i < length row) [0..<?k]) (o_weight m)"
    using lo by (simp add: list_all_iff)
  then have po: "prune_linear_layer (o_weight m) [0..<?k] (Suc 0) = Inr (o_weight m)"
    using lo by (simp add: prune_linear_layer_columns select_all_columns)
  have upd: "m\<lparr>n_heads := n_heads m, inner_dim := inner_dim m\<rparr> = m" by simp
  show ?thesis
    using False
    by (simp add: prune_heads_def fp pq pk pv po Let_def fcard_fempty inner[symmetric] upd)
qed

lemma nat_diff_int: "0 \<le> n \<Longrightarrow> int k \<le> n \<Longrightarrow> nat (n - int k) = nat n - k"
  by simp

lemma prune_heads_valid:
  assumes wf: "attention_wf m"
    and valid: "list_all (\<lambda>h. 0 \<le> h \<and> h < n_heads m + int (fcard (pruned_heads m))) heads"
    and ne: "length heads \<noteq> 0"
  shows "\<exists>m'. prune_heads m heads = Inr m'
           \<and> n_heads m' = n_heads m - int (fcard (fset_of_list heads |-| pruned_heads m))
           \<and> pruned_heads m' = pruned_heads m |\<union>| fset_of_list heads
           \<and> inner_dim m' = int (d_kv m') * n_heads m'
           \<and> attention_wf m'"
proof -
  let ?n = "n_heads m" and ?d = "d_kv m" and ?P = "pruned_heads m"
  let ?H = "fset_of_list heads |-| ?P"
  let ?k = "nat ?n * ?d"
  have n0: "0 \<le> ?n" and lq: "length (q_weight m) = ?k" and lk: "length (k_weight m) = ?k"
    and lv: "length (v_weight m) = ?k"
    and lo: "list_all (\<lambda>row. length row = ?k) (o_weight m)"
    and P: "fBall ?P (\<lambda>h. 0 \<le> h \<and> h < ?n + int (fcard ?P))"
    using wf by (simp_all add: attention_wf_def)
  from find_pruneable_valid[OF n0 P valid, of ?d] obtain index where
    fp: "find_pruneable_heads_and_indices heads ?n ?d ?P = Inr (?H, index)"
    and len: "length index = (nat ?n - fcard ?H) * ?d"
    and bound: "list_all (\<lambda>i. i < ?k) index"
    and le: "int (fcard ?H) \<le> ?n"
    by blast
  define m' where "m' = m \<lparr> q_weight := map (\<lambda>i. q_weight m ! i) index,
      k_weight := map (\<lambda>i. k_weight m ! i) index,
      v_weight := map (\<lambda>i. v_weight m ! i) index,
      o_weight := map (\<lambda>row. map (\<lambda>i. row ! i) index) (o_weight m),
      n_heads := ?n - int (fcard ?H),
      inner_dim := int ?d * (?n - int (fcard ?H)),
      pruned_heads := ?P |\<union>| ?H \<rparr>"
  have pq: "prune_linear_layer (q_weight m) index 0 = Inr (map (\<lambda>i. q_weight m ! i) index)"
    using bound lq by (simp add: prune_linear_layer_rows)
  have pk: "prune_linear_layer (k_weight m) index 0 = Inr (map (\<lambda>i. k_weight m ! i) index)"
    using bound lk by (simp add: prune_linear_layer_rows)
  have pv: "prune_linear_layer (v_weight m) index 0 = Inr (map (\<lambda>i. v_weight m ! i) index)"
    using bound lv by (simp add: prune_linear_layer_rows)
  have "list_all (\<lambda>row. list_all (\<lambda>i. i < length row) index) (o_weight m)"
    using lo bound by (simp add: list_all_iff)
  then have po: "prune_linear_layer (o_weight m) index (Suc 0)
      = Inr (map (\<lambda>row. map (\<lambda>i. row ! i) index) (o_weight m))"
    by (rule prune_linear_layer_columns)
  have res: "prune_heads m heads = Inr m'"
    using ne by (simp add: prune_heads_def fp pq pk pv po m'_def Let_def)
  have nat': "nat (?n - int (fcard ?H)) = nat ?n - fcard ?H"
    using n0 le by (rule nat_diff_int)
  have disj: "fcard (?P |\<union>| ?H) = fcard ?P + fcard ?H"
    by (rule fcard_union_diff)
  have un: "?P |\<union>| ?H = ?P |\<union>| fset_of_list heads"
    by (rule funion_diff)
  have Hvalid: "fBall ?H (\<lambda>h. 0 \<le> h \<and> h < ?n + int (fcard ?P))"
    using valid by (auto simp add: list_all_iff fset_of_list.rep_eq)
  have total: "?n - int (fcard ?H) + int (fcard (?P |\<union>| ?H)) = ?n + int (fcard ?P)"
    unfolding disj by simp
  have w1: "0 \<le> n_heads m'" using le by (simp add: m'_def)
  have k': "nat (n_heads m') * d_kv m' = length index"
    unfolding len by (simp add: m'_def nat')
  have w2: "length (q_weight m') = nat (n_heads m') * d_kv m'"
    unfolding k' by (simp add: m'_def)
  have w3: "length (k_weight m') = nat (n_heads m') * d_kv m'"
    unfolding k' by (simp add: m'_def)
  have w4: "length (v_weight m') = nat (n_heads m') * d_kv m'"
    unfolding k' by (simp add: m'_def)
  have w5: "list_all (\<lambda>row. length row = nat (n_heads m') * d_kv m') (o_weight m')"
    unfolding k' by (simp add: m'_def list_all_iff)
  have pm: "pruned_heads m' = ?P |\<union>| ?H" and nm: "n_heads m' = ?n - int (fcard ?H)"
    by (simp_all add: m'_def)
  have w6: "fBall (pruned_heads m') (\<lambda>h. 0 \<le> h \<and> h < n_heads m' + int (fcard (pruned_heads m')))"
    unfolding pm nm total using P Hvalid by auto
  have wf': "attention_wf m'"
    unfolding attention_wf_def using w1 w2 w3 w4 w5 w6 by blast
  have i': "inner_dim m' = int (d_kv m') * n_heads m'" by (simp add: m'_def)
  show ?thesis
    using res wf' i' nm pm[unfolded un] by blast
qed

text \<open>
  C9 (amended). For a module in the state that construction and pruning leave it in, and
  head indices among the heads the module was built with (\<open>0 \<le> h\<close> below the original
  head count), \<^verbatim>\<open>prune_heads\<close> succeeds, and calling it again with the same heads returns
  the very same module: projections, head count, inner dimension and recorded pruned
  heads. The head count drops by the number of distinct heads that were not pruned before,
  the recorded set grows by the given heads, and head count plus number of recorded heads
  stays what it was; the new state is again well-formed, so the same holds for every
  further call.
\<close>

theorem prune_heads_idempotent:
  assumes wf: "attention_wf m"
    and valid: "list_all (\<lambda>h. 0 \<le> h \<and> h < n_heads m + int (fcard (pruned_heads m))) heads"
  shows "\<exists>m'. prune_heads m heads = Inr m'
           \<and> prune_heads m' heads = Inr m'
           \<and> n_heads m' = n_heads m - int (fcard (fset_of_list heads |-| pruned_heads m))
           \<and> pruned_heads m' = pruned_heads m |\<union>| fset_of_list heads
           \<and> n_heads m' + int (fcard (pruned_heads m'))
               = n_heads m + int (fcard (pruned_heads m))
           \<and> attention_wf m'"
proof (cases "length heads = 0")
  case True
  then show ?thesis using wf by (intro exI[of _ m]) (simp add: prune_heads_def)
next
  case False
  from prune_heads_valid[OF wf valid False] obtain m' where
    res: "prune_heads m heads = Inr m'"
    and n': "n_heads m' = n_heads m - int (fcard (fset_of_list heads |-| pruned_heads m))"
    and p': "pruned_heads m' = pruned_heads m |\<union>| fset_of_list heads"
    and inner: "inner_dim m' = int (d_kv m') * n_heads m'"
    and wf': "attention_wf m'"
    by blast
  have "fset_of_list heads |-| pruned_heads m' = {||}" unfolding p' by auto
  then have again: "prune_heads m' heads = Inr m'"
    by (rule prune_heads_nothing_new[OF wf' _ inner])
  have "fcard (pruned_heads m |\<union>| fset_of_list heads)
      = fcard (pruned_heads m) + fcard (fset_of_list heads |-| pruned_heads m)"
    using fcard_union_diff[of "pruned_heads m" "fset_of_list heads"]
    unfolding funion_diff .
  then have count: "n_heads m' + int (fcard (pruned_heads m'))
               = n_heads m + int (fcard (pruned_heads m))"
    unfolding n' p' by simp
  show ?thesis using res again n' p' count wf' by blast
qed

lemma example_two_head_wf: "attention_wf example_two_head_attention"
  by (simp add: attention_wf_def example_two_head_attention_def)

lemma example_prune_value:
  "prune_heads example_two_head_attention [0] =
     Inr (example_two_head_attention
           \<lparr> q_weight := [[2]], k_weight := [[4]], v_weight := [[6]], o_weight := [[8]],
             n_heads := 1, inner_dim := 1, pruned_heads := {|0|} \<rparr>)"
  by (simp add: prune_heads_def find_pruneable_heads_and_indices_def prune_linear_layer_def
        example_two_head_attention_def Let_def fcard.rep_eq upt_rec)

theorem prune_heads_idempotent_witness:
  "prune_heads example_two_head_attention [0] =
     Inr (example_two_head_attention
           \<lparr> q_weight := [[2]], k_weight := [[4]], v_weight := [[6]], o_weight := [[8]],
             n_heads := 1, inner_dim := 1, pruned_heads := {|0|} \<rparr>)
   \<and> prune_heads (example_two_head_attention
           \<lparr> q_weight := [[2]], k_weight := [[4]], v_weight := [[6]], o_weight := [[8]],
             n_heads := 1, inner_dim := 1, pruned_heads := {|0|} \<rparr>) [0] =
     Inr (example_two_head_attention
           \<lparr> q_weight := [[2]], k_weight := [[4]], v_weight := [[6]], o_weight := [[8]],
             n_heads := 1, inner_dim := 1, pruned_heads := {|0|} \<rparr>)"
proof -
  have valid: "list_all (\<lambda>h. 0 \<le> h \<and> h < n_heads example_two_head_attention
        + int (fcard (pruned_heads example_two_head_attention))) [0]"
    by (simp add: example_two_head_attention_def)
  from prune_heads_idempotent [OF example_two_head_wf valid]
  show ?thesis unfolding example_prune_value by auto
qed

text \<open>
  C9 as stated fails for head indices outside that range. On the module with two heads,
  the indices \<open>-1\<close> and \<open>1\<close> name the same row (a negative index counts from the end),
  so the first call removes one row but subtracts two from the head count; the second
  call with the same indices then selects the rows of zero heads and empties the
  projections.
\<close>

theorem prune_heads_negative_index_counterexample:
  "prune_heads example_two_head_attention [- 1, 1] =
     Inr (example_two_head_attention
           \<lparr> q_weight := [[1]], k_weight := [[3]], v_weight := [[5]], o_weight := [[7]],
             n_heads := 0, inner_dim := 0, pruned_heads := {|- 1, 1|} \<rparr>)
   \<and> prune_heads (example_two_head_attention
           \<lparr> q_weight := [[1]], k_weight := [[3]], v_weight := [[5]], o_weight := [[7]],
             n_heads := 0, inner_dim := 0, pruned_heads := {|- 1, 1|} \<rparr>) [- 1, 1] =
     Inr (example_two_head_attention
           \<lparr> q_weight := [], k_weight := [], v_weight := [], o_weight := [[]],
             n_heads := 0, inner_dim := 0, pruned_heads := {|- 1, 1|} \<rparr>)
   \<and> q_weight (example_two_head_attention
           \<lparr> q_weight := [], k_weight := [], v_weight := [], o_weight := [[]],
             n_heads := 0, inner_dim := 0, pruned_heads := {|- 1, 1|} \<rparr>)
     \<noteq> q_weight (example_two_head_attention
           \<lparr> q_weight := [[1]], k_weight := [[3]], v_weight := [[5]], o_weight := [[7]],
             n_heads := 0, inner_dim := 0, pruned_heads := {|- 1, 1|} \<rparr>)"
proof -
  have c2: "fcard {|- 1, 1 :: int|} = 2" by (simp add: fcard.rep_eq)
  have first: "prune_heads example_two_head_attention [- 1, 1] =
     Inr (example_two_head_attention
           \<lparr> q_weight := [[1]], k_weight := [[3]], v_weight := [[5]], o_weight := [[7]],
             n_heads := 0, inner_dim := 0, pruned_heads := {|- 1, 1|} \<rparr>)"
    by (simp add: prune_heads_def find_pruneable_heads_and_indices_def prune_linear_layer_def
        example_two_head_attention_def Let_def c2 fcard.rep_eq upt_rec)
  have second: "prune_heads (example_two_head_attention
           \<lparr> q_weight := [[1]], k_weight := [[3]], v_weight := [[5]], o_weight := [[7]],
             n_heads := 0, inner_dim := 0, pruned_heads := {|- 1, 1|} \<rparr>) [- 1, 1] =
     Inr (example_two_head_attention
           \<lparr> q_weight := [], k_weight := [], v_weight := [], o_weight := [[]],
             n_heads := 0, inner_dim := 0, pruned_heads := {|- 1, 1|} \<rparr>)"
    by (simp add: prune_heads_def find_pruneable_heads_and_indices_def prune_linear_layer_def
        example_two_head_attention_def Let_def fcard.rep_eq)
  show ?thesis using first second by simp
qed

section \<open>Properties of the joint encoder\<close>

lemma sequence_length: "sequence rs = Inr xs \<Longrightarrow> length xs = length rs"
  by (induction rs arbitrary: xs) (auto split: sum.splits)

lemma sequence_nth:
  "sequence rs = Inr xs \<Longrightarrow> i < length rs \<Longrightarrow> rs ! i = Inr (xs ! i)"
proof (induction rs arbitrary: xs i)
  case Nil
  then show ?case by simp
next
  case (Cons r rs)
  then show ?case by (cases i) (auto split: sum.splits)
qed

lemma sequence_rows_shape:
  assumes "sequence (map (\<lambda>row. sequence (map f row)) rows) = Inr vals"
  shows "length vals = length rows"
    and "\<forall>i<length rows. length (vals ! i) = length (rows ! i)"
proof -
  show l: "length vals = length rows" using sequence_length[OF assms] by simp
  show "\<forall>i<length rows. length (vals ! i) = length (rows ! i)"
  proof (intro allI impI)
    fix i assume i: "i < length rows"
    have "map (\<lambda>row. sequence (map f row)) rows ! i = Inr (vals ! i)"
      using sequence_nth[OF assms] i by simp
    then have "sequence (map f (rows ! i)) = Inr (vals ! i)" using i by simp
    from sequence_length[OF this] show "length (vals ! i) = length (rows ! i)" by simp
  qed
qed

lemma compute_bias_shape:
  assumes "compute_bias m qlen klen = Inr pb"
  shows "\<exists>hs. pb = [hs] \<and> (\<forall>h\<in>set hs. length h = qlen \<and> (\<forall>row\<in>set h. length row = klen))"
proof -
  let ?rel = "map (\<lambda>i. map (\<lambda>j. int j - int i) [0..<klen]) [0..<qlen]"
  from assms obtain rp table vals where
    rp: "relative_position_bucket_tensor (\<not> is_decoder m) (relative_attention_num_buckets m) 128 ?rel = Inr rp"
    and vals: "sequence (map (\<lambda>row. sequence (map (embedding_lookup table) row)) rp) = Inr vals"
    and pb: "pb = [map (\<lambda>h. map (map (\<lambda>entry. entry ! h)) vals) [0..<embedding_dim table]]"
    by (auto simp add: compute_bias_def Let_def split: sum.splits option.splits)
  from rp have rp': "sequence (map (\<lambda>row. sequence (map (relative_position_bucket (\<not> is_decoder m)
       (relative_attention_num_buckets m) 128) row)) ?rel) = Inr rp"
    by (auto simp add: relative_position_bucket_tensor_def Let_def split: if_splits)
  from sequence_rows_shape[OF rp'] have r1: "length rp = qlen"
    and r2: "\<forall>i<qlen. length (rp ! i) = klen" by simp_all
  from sequence_rows_shape[OF vals] have v1: "length vals = qlen"
    and v2: "\<forall>i<qlen. length (vals ! i) = klen" using r1 r2 by simp_all
  have "\<forall>row\<in>set vals. length row = klen"
    using v1 v2 by (auto simp add: in_set_conv_nth)
  then show ?thesis unfolding pb using v1 by auto
qed

lemma assign_row: "length srow = L \<Longrightarrow> length brow = L \<Longrightarrow> take L srow @ drop L brow = srow"
  by simp








section \<open>Properties of the causal mask\<close>

text \<open>
  Shapes and entries of the tensors that meet in the scores: broadcasting along axes of
  equal size is the entry-wise operation, the scores of self-attention are
  \<open>[batch, heads, length, length]\<close>, the bias table gives one \<open>[length, length]\<close> matrix
  per head, and the causal mask has \<open>-10000\<close> at the later keys and
  \<open>(1 - mask) * (-10000)\<close> elsewhere.
\<close>

lemma bzip_same_length:
  "length xs = length ys \<Longrightarrow> bzip f xs ys = map2 f xs ys"
  by (cases xs; cases ys) (auto simp add: bzip_def split: list.splits)

lemma bzip_left_single: "bzip f [x] ys = map (f x) ys"
  by (simp add: bzip_def)

lemma bzip_right_single: "bzip f xs [y] = map (\<lambda>x. f x y) xs"
  by (cases xs) (auto simp add: bzip_def split: list.splits)

lemma compute_bias_heads:
  assumes "compute_bias m qlen klen = Inr pb" and "relative_attention_bias m = Some table"
  shows "length (pb ! 0) = embedding_dim table"
  using assms by (auto simp add: compute_bias_def Let_def split: sum.splits option.splits)

lemma softmax_nth:
  "j < length xs \<Longrightarrow> softmax xs ! j = exp (xs ! j) / sum_list (map exp xs)"
  by (simp add: softmax_def)

lemma exp_le_sum_list_exp:
  fixes xs :: "real list"
  assumes "i < length xs"
  shows "exp (xs ! i) \<le> sum_list (map exp xs)"
proof -
  have "exp (xs ! i) \<in> set (map exp xs)" using assms by simp
  moreover have "\<forall>y\<in>set (map exp xs). 0 \<le> y" by auto
  ultimately show ?thesis by (intro member_le_sum_list) auto
qed

lemma softmax_ratio_bound:
  fixes xs :: "real list"
  assumes i: "i < length xs" and j: "j < length xs"
  shows "softmax xs ! j \<le> exp (xs ! j - xs ! i)"
proof -
  have den: "exp (xs ! i) \<le> sum_list (map exp xs)" by (rule exp_le_sum_list_exp[OF i])
  have pos: "0 < exp (xs ! i)" by simp
  have sp: "0 < sum_list (map exp xs)" by (rule less_le_trans[OF pos den])
  have sj: "softmax xs ! j = exp (xs ! j) / sum_list (map exp xs)" by (rule softmax_nth[OF j])
  have "exp (xs ! j) / sum_list (map exp xs) \<le> exp (xs ! j) / exp (xs ! i)"
    by (rule frac_le) (use den pos in simp_all)
  also have "\<dots> = exp (xs ! j - xs ! i)" by (simp add: exp_diff)
  finally show ?thesis unfolding sj .
qed

lemma extended_mask_decoder_entry:
  assumes "b < length am" "i < seq_length" "j < length (am ! b)"
  shows "get_extended_attention_mask True am seq_length ! b ! 0 ! i ! j
         = (if j \<le> i then (1 - am ! b ! j) * (- 10000) else - 10000)"
  using assms by (simp add: get_extended_attention_mask_def)

lemma extended_mask_decoder_shape:
  "length (get_extended_attention_mask True am seq_length) = length am"
  "b < length am \<Longrightarrow> \<exists>rows. get_extended_attention_mask True am seq_length ! b = [rows]
       \<and> length rows = seq_length \<and> (\<forall>i<seq_length. length (rows ! i) = length (am ! b))"
  by (simp_all add: get_extended_attention_mask_def)

lemma scores_shape:
  assumes b: "b < length input" and h: "h < nat (n_heads m)"
  shows "length (einsum_bnqd_bnkd (shape m (Linear_forward wq input))
                                 (shape m (Linear_forward wk input))) = length input"
    and "length (einsum_bnqd_bnkd (shape m (Linear_forward wq input))
                                 (shape m (Linear_forward wk input)) ! b) = nat (n_heads m)"
    and "length (einsum_bnqd_bnkd (shape m (Linear_forward wq input))
                                 (shape m (Linear_forward wk input)) ! b ! h) = length (input ! b)"
    and "i < length (input ! b) \<Longrightarrow>
         length (einsum_bnqd_bnkd (shape m (Linear_forward wq input))
                                 (shape m (Linear_forward wk input)) ! b ! h ! i) = length (input ! b)"
  using b h by (simp_all add: einsum_bnqd_bnkd_def shape_def Linear_forward_def)


lemma masked_scores_row:
  fixes S M :: tensor4
  assumes lS: "length S = n" and lSb: "length (S ! b) = H" and lSh: "length (S ! b ! h) = L"
      and lSi: "length (S ! b ! h ! i) = K"
      and lhs: "length hs = H" and lhh: "length (hs ! h) = L" and lhi: "length (hs ! h ! i) = K"
      and lM: "length M = n" and Mb: "M ! b = [rows]" and lr: "length rows = L"
      and lri: "length (rows ! i) = K"
      and b: "b < n" and h: "h < H" and i: "i < L"
  shows "badd4 S (badd4 [hs] M) ! b ! h ! i
         = map2 (+) (S ! b ! h ! i) (map2 (+) (hs ! h ! i) (rows ! i))"
    and "length (badd4 S (badd4 [hs] M)) = n"
    and "length (badd4 S (badd4 [hs] M) ! b) = H"
    and "length (badd4 S (badd4 [hs] M) ! b ! h) = L"
proof -
  let ?F1 = "bzip ((+) :: real \<Rightarrow> real \<Rightarrow> real)"
  let ?F2 = "bzip ?F1"
  let ?F3 = "bzip ?F2"
  let ?PM = "badd4 [hs] M"
  have PM: "?PM = map (?F3 hs) M" by (simp add: badd4_def bzip_left_single)
  have lPM: "length ?PM = n" using lM by (simp add: PM)
  have PMb: "?PM ! b = map (\<lambda>x. ?F2 x rows) hs"
    using b lM by (simp add: PM Mb bzip_right_single)
  have PMbh: "?PM ! b ! h = map2 ?F1 (hs ! h) rows"
    using h lhs lhh lr by (simp add: PMb bzip_same_length)
  have PMbhi: "?PM ! b ! h ! i = map2 (+) (hs ! h ! i) (rows ! i)"
    using i lhh lr lhi lri by (simp add: PMbh bzip_same_length)
  have lPMb: "length (?PM ! b) = H" using lhs by (simp add: PMb)
  have lPMbh: "length (?PM ! b ! h) = L" using lhh lr by (simp add: PMbh)
  have lPMbhi: "length (?PM ! b ! h ! i) = K" using lhi lri by (simp add: PMbhi)
  have T: "badd4 S ?PM = map2 ?F3 S ?PM"
    using lS lPM by (metis badd4_def bzip_same_length)
  have Tb: "badd4 S ?PM ! b = map2 ?F2 (S ! b) (?PM ! b)"
    using b lS lPM lSb lPMb by (simp add: T bzip_same_length)
  have Tbh: "badd4 S ?PM ! b ! h = map2 ?F1 (S ! b ! h) (?PM ! b ! h)"
    using h lSb lPMb lSh lPMbh by (simp add: Tb bzip_same_length)
  have Tbhi: "badd4 S ?PM ! b ! h ! i = map2 (+) (S ! b ! h ! i) (?PM ! b ! h ! i)"
    using i lSh lPMbh lSi lPMbhi by (simp add: Tbh bzip_same_length)
  show "badd4 S ?PM ! b ! h ! i = map2 (+) (S ! b ! h ! i) (map2 (+) (hs ! h ! i) (rows ! i))"
    unfolding Tbhi PMbhi ..
  show "length (badd4 S ?PM) = n" using lS lPM by (simp add: T)
  show "length (badd4 S ?PM ! b) = H" using lSb lPMb by (simp add: Tb)
  show "length (badd4 S ?PM ! b ! h) = L" using lSh lPMbh by (simp add: Tbh)
qed


lemma forward_with_mask:
  assumes fw: "T5Attention_forward m input (Some mk) None None None None query_length
                 use_cache True = Inr out"
  shows "\<exists>pb. compute_bias m (size1 input) (size1 input) = Inr pb
          \<and> att_weights out
             = Some (softmax4 (badd4 (einsum_bnqd_bnkd (shape m (Linear_forward (q_weight m) input))
                                        (shape m (Linear_forward (k_weight m) input)))
                                     (badd4 pb mk)))"
  using fw
  by (auto simp add: T5Attention_forward_def attention_position_bias_def attention_real_qlen_def
        attention_klen_def attention_apply_def key_value_states_def Let_def
        split: if_splits sum.splits)

text \<open>
  C8 (amended): in the self-attention of a decoder module that owns the bias table, called
  without a cache and with the causal extended mask, the row of weights of query \<open>i\<close> is
  the softmax of score plus table bias plus mask. The mask is additive and finite, so the
  weight on a strictly later position \<open>j\<close> is not forced to zero: when position \<open>i\<close> itself
  is visible, the weight is at most \<open>exp (z j - z i - 10000)\<close>, where \<open>z\<close> is the row of
  scores plus table bias. The weight is negligible as long as the scores of the row
  differ by much less than \<open>10000\<close>.
\<close>

theorem causal_mask_bounds_future_weight:
  assumes fw: "T5Attention_forward m input
                 (Some (get_extended_attention_mask True am (size1 input)))
                 None None None None query_length use_cache True = Inr out"
    and table: "relative_attention_bias m = Some table"
    and heads: "embedding_dim table = nat (n_heads m)"
    and lam: "length am = length input"
    and rows: "\<forall>b<length input. length (input ! b) = L \<and> length (am ! b) = L"
    and b: "b < length input" and h: "h < nat (n_heads m)" and ij: "i < j" and j: "j < L"
  shows "\<exists>w pb. att_weights out = Some w \<and> compute_bias m L L = Inr pb \<and>
           (let S = einsum_bnqd_bnkd (shape m (Linear_forward (q_weight m) input))
                      (shape m (Linear_forward (k_weight m) input));
                z = (\<lambda>k. S ! b ! h ! i ! k + pb ! 0 ! h ! i ! k)
            in w ! b ! h ! i
                 = softmax (map (\<lambda>k. z k + (if k \<le> i then (1 - am ! b ! k) * (- 10000)
                                              else - 10000)) [0..<L])
             \<and> (am ! b ! i = 1 \<longrightarrow> w ! b ! h ! i ! j \<le> exp (z j - z i - 10000)))"
proof -
  let ?M = "get_extended_attention_mask True am (size1 input)"
  let ?S = "einsum_bnqd_bnkd (shape m (Linear_forward (q_weight m) input))
              (shape m (Linear_forward (k_weight m) input))"
  have i: "i < L" using ij j by simp
  have ne: "input \<noteq> []" using b by auto
  have "size1 input = length (input ! 0)" using ne by (cases input) (simp_all add: size1_def)
  moreover have "length (input ! 0) = L" using rows ne by simp
  ultimately have sz: "size1 input = L" by simp
  have lb: "length (input ! b) = L" and lab: "length (am ! b) = L" using rows b by simp_all
  from forward_with_mask[OF fw] obtain pb where
    cb: "compute_bias m L L = Inr pb"
    and w: "att_weights out = Some (softmax4 (badd4 ?S (badd4 pb ?M)))"
    unfolding sz by blast
  from compute_bias_shape[OF cb] obtain hs where
    pb: "pb = [hs]" and hsh: "\<forall>x\<in>set hs. length x = L \<and> (\<forall>row\<in>set x. length row = L)"
    by blast
  have lhs: "length hs = nat (n_heads m)"
    using compute_bias_heads[OF cb table] heads by (simp add: pb)
  have hin: "hs ! h \<in> set hs" using h lhs by simp
  have lhh: "length (hs ! h) = L" using hsh hin by blast
  have "hs ! h ! i \<in> set (hs ! h)" using i lhh by simp
  then have lhi: "length (hs ! h ! i) = L" using hsh hin by blast
  have bam: "b < length am" using b lam by simp
  from extended_mask_decoder_shape(2)[OF bam, of "size1 input"] obtain rws where
    Mb: "?M ! b = [rws]" and lr: "length rws = L" and lri: "length (rws ! i) = L"
    unfolding sz using i lab by auto
  have lM: "length ?M = length input" using lam by (simp add: extended_mask_decoder_shape(1))
  have lS: "length ?S = length input" by (rule scores_shape(1)[OF b h])
  have lSb: "length (?S ! b) = nat (n_heads m)" by (rule scores_shape(2)[OF b h])
  have lSh: "length (?S ! b ! h) = L" using scores_shape(3)[OF b h] lb by simp
  have lSi: "length (?S ! b ! h ! i) = L"
    using scores_shape(4)[OF b h, of i] i lb by simp
  note row = masked_scores_row[OF lS lSb lSh lSi lhs lhh lhi lM Mb lr lri b h i]
  let ?T = "badd4 ?S (badd4 [hs] ?M)"
  let ?X = "map2 (+) (?S ! b ! h ! i) (map2 (+) (hs ! h ! i) (rws ! i))"
  have wrow: "softmax4 ?T ! b ! h ! i = softmax ?X"
    using row b h i by (simp add: softmax4_def)
  have rk: "rws ! i ! k = (if k \<le> i then (1 - am ! b ! k) * (- 10000) else - 10000)"
    if "k < L" for k
  proof -
    have "?M ! b ! 0 ! i ! k = (if k \<le> i then (1 - am ! b ! k) * (- 10000) else - 10000)"
      using extended_mask_decoder_entry[OF bam, of i "size1 input" k] i that lab sz by simp
    then show ?thesis by (simp add: Mb)
  qed
  have lX: "length ?X = L" using lSi lhi lri by simp
  have Xk: "?X ! k = ?S ! b ! h ! i ! k + hs ! h ! i ! k
               + (if k \<le> i then (1 - am ! b ! k) * (- 10000) else - 10000)"
    if "k < L" for k
    using that lSi lhi lri rk[OF that] by simp
  have Xeq: "?X = map (\<lambda>k. ?S ! b ! h ! i ! k + hs ! h ! i ! k
               + (if k \<le> i then (1 - am ! b ! k) * (- 10000) else - 10000)) [0..<L]"
  proof (rule nth_equalityI)
    show "length ?X = length (map (\<lambda>k. ?S ! b ! h ! i ! k + hs ! h ! i ! k
               + (if k \<le> i then (1 - am ! b ! k) * (- 10000) else - 10000)) [0..<L])"
      unfolding lX by simp
  next
    fix k assume "k < length ?X"
    then have k: "k < L" unfolding lX .
    show "?X ! k = map (\<lambda>k. ?S ! b ! h ! i ! k + hs ! h ! i ! k
               + (if k \<le> i then (1 - am ! b ! k) * (- 10000) else - 10000)) [0..<L] ! k"
      unfolding Xk[OF k] using k by simp
  qed
  have bound: "softmax ?X ! j \<le> exp (?X ! j - ?X ! i)"
    by (rule softmax_ratio_bound) (use i j lX in simp_all)
  have diff: "?X ! j - ?X ! i
              = (?S ! b ! h ! i ! j + hs ! h ! i ! j) - (?S ! b ! h ! i ! i + hs ! h ! i ! i) - 10000"
    if "am ! b ! i = 1"
    using Xk[OF i] Xk[OF j] ij that by simp
  show ?thesis
    apply (rule exI[of _ "softmax4 ?T"], rule exI[of _ pb])
    apply (intro conjI)
      apply (simp add: w pb)
     apply (rule cb)
    unfolding Let_def wrow pb
    apply (intro conjI impI)
     apply (simp add: Xeq)
    using bound diff apply simp
    done
qed

lemma example_masked_call:
  "T5Attention_forward example_decoder_bias_attention [[[0], [1]]]
       (Some (get_extended_attention_mask True [[1, 1]] (size1 [[[0], [1 :: real]]])))
       None None None None None False True
     = Inr (attention_apply example_decoder_bias_attention [[[0], [1]]] None None None False True
              [[[[5, - 9995], [6, 5]]]])"
proof -
  have m: "get_extended_attention_mask True [[1, 1]] (size1 [[[0], [1 :: real]]])
           = [[[[0, - 10000], [0, 0]]]]"
    by (simp add: get_extended_attention_mask_def size1_def upt_rec [of 0] upt_rec [of 1]
          upt_rec [of "Suc 0"] numeral_2_eq_2)
  show ?thesis
    unfolding m
    by (simp add: T5Attention_forward_def attention_position_bias_def attention_real_qlen_def
        attention_klen_def example_decoder_bias_flags example_decoder_compute_bias size1_def
        badd4_def bzip_def Let_def cong: sum.case_cong option.case_cong)
qed

lemma example_masked_scores:
  "einsum_bnqd_bnkd
     (shape example_decoder_bias_attention
        (Linear_forward (q_weight example_decoder_bias_attention) [[[0], [1]]]))
     (shape example_decoder_bias_attention
        (Linear_forward (k_weight example_decoder_bias_attention) [[[0], [1]]]))
   = [[[[0, 0], [0, 20000]]]]"
  by (simp add: example_decoder_bias_attention_def shape_def Linear_forward_def
        Linear_forward_vec_def dot_def einsum_bnqd_bnkd_def)

theorem causal_mask_bounds_future_weight_witness:
  "T5Attention_forward example_decoder_bias_attention [[[0], [1]]]
       (Some (get_extended_attention_mask True [[1, 1]] (size1 [[[0], [1 :: real]]])))
       None None None None None False True
     = Inr (attention_apply example_decoder_bias_attention [[[0], [1]]] None None None False True
              [[[[5, - 9995], [6, 5]]]])
   \<and> the (att_weights (attention_apply example_decoder_bias_attention [[[0], [1]]]
                  None None None False True [[[[5, - 9995], [6, 5]]]])) ! 0 ! 0 ! 0 ! 1
       \<le> exp ((0 + 5) - (0 + 5) - 10000)"
proof -
  let ?out = "attention_apply example_decoder_bias_attention [[[0], [1]]] None None None
                False True [[[[5, - 9995], [6, 5]]]]"
  have tb: "relative_attention_bias example_decoder_bias_attention
            = Some \<lparr> num_embeddings = 4, embedding_dim = 1, emb_weight = [[5], [6], [7], [8]] \<rparr>"
    by (simp add: example_decoder_bias_attention_def)
  have hd: "embedding_dim \<lparr> num_embeddings = 4, embedding_dim = 1,
                            emb_weight = [[5], [6], [7], [8 :: real]] \<rparr>
            = nat (n_heads example_decoder_bias_attention)"
    by (simp add: example_decoder_bias_attention_def)
  have nh: "(0 :: nat) < nat (n_heads example_decoder_bias_attention)"
    by (simp add: example_decoder_bias_attention_def)
  have rows: "\<forall>b<length [[[0], [1 :: real]]].
                 length ([[[0], [1 :: real]]] ! b) = 2 \<and> length ([[1, 1 :: real]] ! b) = 2"
    by simp
  have lam: "length [[1, 1 :: real]] = length [[[0], [1 :: real]]]" by simp
  have b0: "0 < length [[[0], [1 :: real]]]" by simp
  have ij: "(0 :: nat) < 1" by simp
  have j: "(1 :: nat) < 2" by simp
  from causal_mask_bounds_future_weight[OF example_masked_call tb hd lam rows b0 nh ij j]
  obtain w pb where w: "att_weights ?out = Some w"
    and cb: "compute_bias example_decoder_bias_attention 2 2 = Inr pb"
    and bound: "w ! 0 ! 0 ! 0 ! Suc 0
                  \<le> exp (pb ! 0 ! 0 ! 0 ! Suc 0 - pb ! 0 ! 0 ! 0 ! 0 - 10000)"
    unfolding example_masked_scores Let_def by auto
  have pbv: "pb = [[[[5, 5], [6, 5]]]]"
    using cb example_decoder_compute_bias by (simp add: numeral_2_eq_2)
  have wv: "the (att_weights ?out) = w" using w by simp
  show ?thesis
    unfolding wv using example_masked_call bound by (simp add: pbv)
qed

lemma half_less_exp_ratio:
  fixes a b :: real
  assumes "b < a"
  shows "1 / 2 < exp a / (exp b + exp a)"
proof -
  have "exp b < exp a" using assms by simp
  moreover have "0 < exp b + exp a" by (simp add: add_pos_pos)
  ultimately show ?thesis by (simp add: field_simps)
qed

text \<open>
  C8 as stated fails: with the query projection \<open>20000\<close> and the inputs \<open>1\<close> and \<open>2\<close>, the
  score of the first position against the second exceeds its score against itself by
  \<open>20000\<close>, more than the mask takes away. The masked row is \<open>[20005, 30005]\<close> and the
  weight of the first position on the second, later one is above one half.
\<close>

theorem causal_mask_future_weight_counterexample:
  "T5Attention_forward example_decoder_bias_attention [[[1], [2]]]
       (Some (get_extended_attention_mask True [[1, 1]] 2)) None None None None None False True
     = Inr (attention_apply example_decoder_bias_attention [[[1], [2]]] None None None False True
              [[[[5, - 9995], [6, 5]]]])
   \<and> get_extended_attention_mask True [[1, 1]] 2 = [[[[0, - 10000], [0, 0]]]]
   \<and> 1 / 2 < the (att_weights (attention_apply example_decoder_bias_attention [[[1], [2]]]
                       None None None False True [[[[5, - 9995], [6, 5]]]])) ! 0 ! 0 ! 0 ! 1
   \<and> \<not> (the (att_weights (attention_apply example_decoder_bias_attention [[[1], [2]]]
                       None None None False True [[[[5, - 9995], [6, 5]]]])) ! 0 ! 0 ! 0 ! 1 = 0)"
proof -
  have m: "get_extended_attention_mask True [[1, 1]] 2 = [[[[0, - 10000], [0, 0]]]]"
    by (simp add: get_extended_attention_mask_def upt_rec [of 0] upt_rec [of 1] upt_rec[of "Suc 0"] numeral_2_eq_2)
  have cb: "compute_bias example_decoder_bias_attention (Suc (Suc 0)) (Suc (Suc 0))
            = Inr [[[[5, 5], [6, 5]]]]"
    by (rule example_decoder_compute_bias)
  have f: "T5Attention_forward example_decoder_bias_attention [[[1], [2]]]
       (Some [[[[0, - 10000], [0, 0]]]]) None None None None None False True
     = Inr (attention_apply example_decoder_bias_attention [[[1], [2]]] None None None False True
              [[[[5, - 9995], [6, 5]]]])"
    by (simp add: T5Attention_forward_def attention_position_bias_def attention_real_qlen_def
        attention_klen_def example_decoder_bias_flags cb size1_def badd4_def bzip_def
        Let_def cong: sum.case_cong option.case_cong)
  have w: "the (att_weights (attention_apply example_decoder_bias_attention [[[1], [2]]]
                       None None None False True [[[[5, - 9995], [6, 5]]]])) ! 0 ! 0 ! 0 ! 1
           = exp 30005 / (exp 20005 + exp 30005)"
    by (simp add: attention_apply_def Let_def example_decoder_bias_attention_def shape_def
        Linear_forward_def Linear_forward_vec_def dot_def key_value_states_def
        einsum_bnqd_bnkd_def badd4_def bzip_def softmax4_def softmax_def)
  have h: "1 / 2 < exp (30005::real) / (exp 20005 + exp 30005)"
    by (rule half_less_exp_ratio) simp
  show ?thesis unfolding m f w using h by auto
qed

end
